theory Spec2Isabelle
  imports Main
begin

section \<open>Shared vocabulary: errors, formatting, the log\<close>

text \<open>
  Every \<^verbatim>\<open>fmt.Errorf\<close> site of the repository is one constructor of \<open>error\<close>; the
  argument is what the format string interpolates.  \<open>External\<close> is an error value
  handed back by a library or by the remote side (os, net/http, encoding/json, oauth2),
  carried by its message.
\<close>

datatype error =
    External string
  | FailedToMakeAlbumsRequest error
  | FailedToCreateRequest error
  | FailedToFetchAlbum error
  | APIError string
  | FailedToDecodeAlbum error
  | FailedToMarshalRequestBody error
  | CreateAlbumFailed error
  | FailedToDecodeResponse error
  | FailedToFetchNextPage error
  | UnexpectedStatusCode int
  | FailedToReadResponseBody error
  | FailedToDecodeJSON error
  | FailedToCreateTokenFile error
  | OAuthError string
  | InvalidStateParameter
  | NoAuthorizationCodeReceived
  | ServerError error
  | OAuthFlowTimedOut

text \<open>\<^verbatim>\<open>%d\<close> of a Go integer: decimal digits, a minus sign for a negative number.\<close>

definition digit :: "nat \<Rightarrow> char" where
  "digit n = ''0123456789'' ! (n mod 10)"

function decimal :: "nat \<Rightarrow> string" where
  "decimal n = (if n < 10 then [digit n] else decimal (n div 10) @ [digit n])"
  by pat_completeness auto
termination
  by (relation "measure (\<lambda>n. n)") auto

declare decimal.simps [simp del]

definition Sprintf_d :: "int \<Rightarrow> string" where
  "Sprintf_d i = (if i < 0 then CHR ''-'' # decimal (nat (- i)) else decimal (nat i))"

text \<open>\<^verbatim>\<open>err.Error()\<close>, which is what \<^verbatim>\<open>%v\<close> prints for an error.\<close>

fun Error :: "error \<Rightarrow> string" where
  "Error (External m) = m"
| "Error (FailedToMakeAlbumsRequest e) = ''failed to make albums request: '' @ Error e"
| "Error (FailedToCreateRequest e) = ''failed to create request: '' @ Error e"
| "Error (FailedToFetchAlbum e) = ''failed to fetch album: '' @ Error e"
| "Error (APIError s) = ''API error: '' @ s"
| "Error (FailedToDecodeAlbum e) = ''failed to decode album: '' @ Error e"
| "Error (FailedToMarshalRequestBody e) = ''failed to marshal request body: '' @ Error e"
| "Error (CreateAlbumFailed e) = ''create album failed: '' @ Error e"
| "Error (FailedToDecodeResponse e) = ''failed to decode response: '' @ Error e"
| "Error (FailedToFetchNextPage e) = ''failed to fetch next page: '' @ Error e"
| "Error (UnexpectedStatusCode c) = ''unexpected status code: '' @ Sprintf_d c"
| "Error (FailedToReadResponseBody e) = ''failed to read response body: '' @ Error e"
| "Error (FailedToDecodeJSON e) = ''failed to decode JSON: '' @ Error e"
| "Error (FailedToCreateTokenFile e) = ''failed to create token file: '' @ Error e"
| "Error (OAuthError s) = ''OAuth error: '' @ s"
| "Error InvalidStateParameter = ''invalid state parameter''"
| "Error NoAuthorizationCodeReceived = ''no authorization code received''"
| "Error (ServerError e) = ''server error: '' @ Error e"
| "Error OAuthFlowTimedOut = ''OAuth flow timed out''"

text \<open>
  The layers write to the process-wide logger.  A system state pairs the world the
  collaborators act on (files, network, a test double's fields) with the lines logged
  so far; \<open>Printf\<close> appends the formatted line.
\<close>

record 'w sys =
  world :: 'w
  logged :: "string list"

definition Printf :: "string \<Rightarrow> 'w sys \<Rightarrow> 'w sys" where
  "Printf line s = s\<lparr>logged := logged s @ [line]\<rparr>"

text \<open>A leaf collaborator (the file system, the HTTP client) acts on the world alone.\<close>

definition invoke :: "('w \<Rightarrow> 'a \<times> 'w) \<Rightarrow> 'w sys \<Rightarrow> 'a \<times> 'w sys" where
  "invoke m s = (case m (world s) of (r, w') \<Rightarrow> (r, s\<lparr>world := w'\<rparr>))"

section \<open>Time\<close>

text \<open>
  An instant is a count of nanoseconds since the Unix epoch, a duration a count of
  nanoseconds (\<^verbatim>\<open>time.Duration\<close>).  \<^verbatim>\<open>Time.Unix()\<close> is the instant in whole seconds.
\<close>

type_synonym instant = int
type_synonym duration = int

definition Second :: duration where
  "Second = 1000000000"

definition Minute :: duration where
  "Minute = 60 * Second"

definition Unix :: "instant \<Rightarrow> int" where
  "Unix t = t div Second"

section \<open>OAuth: tokens and the service interface\<close>

text \<open>
  \<^verbatim>\<open>oauth2.Token\<close>: the fields the repository reads.  \<open>Expiry = None\<close> is the zero
  \<^verbatim>\<open>time.Time\<close>.  A \<^verbatim>\<open>*oauth2.Token\<close> is a \<open>Token option\<close>, \<open>None\<close> the nil pointer.
\<close>

record Token =
  AccessToken :: string
  TokenType :: string
  RefreshToken :: string
  Expiry :: "instant option"

text \<open>
  \<^verbatim>\<open>Token.Valid\<close> of the oauth2 library: non-nil, a non-empty access token, and not
  expired; a token with an expiry is expired when the expiry less ten seconds
  (\<^verbatim>\<open>expiryDelta\<close>) lies before the current instant.
\<close>

definition expiryDelta :: duration where
  "expiryDelta = 10 * Second"

definition expired :: "instant \<Rightarrow> Token \<Rightarrow> bool" where
  "expired now t = (case Expiry t of None \<Rightarrow> False | Some e \<Rightarrow> e - expiryDelta < now)"

definition Valid :: "instant \<Rightarrow> Token option \<Rightarrow> bool" where
  "Valid now p = (case p of None \<Rightarrow> False | Some t \<Rightarrow> AccessToken t \<noteq> [] \<and> \<not> expired now t)"

text \<open>
  \<^verbatim>\<open>domain.OAuthService\<close>, with \<^verbatim>\<open>GetAuthURLWithState\<close> as the use case calls it.  Each
  method acts on the system state; \<open>'c\<close> is \<^verbatim>\<open>*oauth2.Config\<close>, which the use case only
  passes on.
\<close>

record ('w, 'c) OAuthService =
  OAuthService_GetClient :: "'w sys \<Rightarrow> (error + 'c) \<times> 'w sys"
  OAuthService_LoadToken :: "'w sys \<Rightarrow> (error + Token option) \<times> 'w sys"
  OAuthService_SaveToken :: "Token option \<Rightarrow> 'w sys \<Rightarrow> error option \<times> 'w sys"
  OAuthService_ExchangeCode :: "string \<Rightarrow> 'w sys \<Rightarrow> (error + Token option) \<times> 'w sys"
  OAuthService_GetAuthURL :: "'w sys \<Rightarrow> string \<times> 'w sys"
  OAuthService_GetAuthURLWithState :: "string \<Rightarrow> 'w sys \<Rightarrow> string \<times> 'w sys"

section \<open>OAuth use case (internal/usecase/oauth\_usecase.go)\<close>

definition OAuthUseCase_AuthenticateClient ::
  "('w, 'c) OAuthService \<Rightarrow> instant \<Rightarrow> 'w sys \<Rightarrow> (error + 'c) \<times> 'w sys" where
  "OAuthUseCase_AuthenticateClient svc now s0 =
     (let s1 = Printf ''Starting OAuth2 authentication...'' s0 in
      case OAuthService_GetClient svc s1 of
        (Inl err, s2) \<Rightarrow> (Inl err, Printf (''Failed to get OAuth config: '' @ Error err) s2)
      | (Inr config, s2) \<Rightarrow>
          (case OAuthService_LoadToken svc s2 of
             (Inl err, s3) \<Rightarrow>
               (Inr config, Printf ''No existing token found, starting OAuth flow...'' s3)
           | (Inr token, s3) \<Rightarrow>
               if Valid now token
               then (Inr config, Printf ''Valid token found, authentication successful'' s3)
               else (Inr config, Printf ''Token expired, starting OAuth flow...'' s3)))"

definition OAuthUseCase_CompleteAuthentication ::
  "('w, 'c) OAuthService \<Rightarrow> string \<Rightarrow> 'w sys \<Rightarrow> error option \<times> 'w sys" where
  "OAuthUseCase_CompleteAuthentication svc code s0 =
     (let s1 = Printf ''Completing OAuth2 authentication with code...'' s0 in
      case OAuthService_ExchangeCode svc code s1 of
        (Inl err, s2) \<Rightarrow>
          (Some err, Printf (''Failed to exchange code for token: '' @ Error err) s2)
      | (Inr token, s2) \<Rightarrow>
          (case OAuthService_SaveToken svc token s2 of
             (Some err, s3) \<Rightarrow> (Some err, Printf (''Failed to save token: '' @ Error err) s3)
           | (None, s3) \<Rightarrow> (None, Printf ''Authentication completed successfully'' s3)))"

text \<open>
  The callback request as the handler reads it: \<^verbatim>\<open>r.URL.Path\<close> and \<^verbatim>\<open>r.URL.Query()\<close>,
  the query as its key/value pairs in order of appearance.  \<^verbatim>\<open>Values.Get\<close> is the first
  value of the key, the empty string when the key is absent.
\<close>

record CallbackRequest =
  Path :: string
  Query :: "(string \<times> string) list"

definition Values_Get :: "(string \<times> string) list \<Rightarrow> string \<Rightarrow> string" where
  "Values_Get q k = (case map_of q k of None \<Rightarrow> [] | Some v \<Rightarrow> v)"

text \<open>What a handler wrote to its \<^verbatim>\<open>ResponseWriter\<close>: status, Content-Type, body.\<close>

record Written =
  status :: int
  content_type :: string
  page :: string

definition successPage :: string where
  "successPage =
     concat (map (\<lambda>(n, l). CHR 0x0A # replicate n (CHR 0x09) @ l)
       [(5, ''<html>''),
        (6, ''<body>''),
        (7, ''<h1>Authorization Successful!</h1>''),
        (7, ''<p>You can close this window now.</p>''),
        (7, ''<script>window.close();</script>''),
        (6, ''</body>''),
        (5, ''</html>''),
        (4, [])])"

text \<open>\<^verbatim>\<open>http.NotFound\<close> of net/http.\<close>

definition http_NotFound :: Written where
  "http_NotFound =
     \<lparr>status = 404, content_type = ''text/plain; charset=utf-8'',
      page = ''404 page not found'' @ [CHR 0x0A]\<rparr>"

text \<open>
  The server's handler (lines 90 to 132), closed over the minted \<open>state\<close>.  It yields
  what it wrote (\<open>None\<close>: it returned without writing) and what it sent on which
  channel (\<open>None\<close>: nothing).
\<close>

datatype send = errChan_send error | codeChan_send string

definition Handler :: "string \<Rightarrow> CallbackRequest \<Rightarrow> Written option \<times> send option" where
  "Handler state r =
     (if Path r = ''/oauth2callback'' then
        (let query = Query r in
         if Values_Get query ''error'' \<noteq> [] then
           (None, Some (errChan_send (OAuthError (Values_Get query ''error''))))
         else if Values_Get query ''state'' \<noteq> state then
           (None, Some (errChan_send InvalidStateParameter))
         else if Values_Get query ''code'' = [] then
           (None, Some (errChan_send NoAuthorizationCodeReceived))
         else
           (Some \<lparr>status = 200, content_type = ''text/html'', page = successPage\<rparr>,
            Some (codeChan_send (Values_Get query ''code''))))
      else (Some http_NotFound, None))"

text \<open>
  The \<^verbatim>\<open>select\<close> of lines 147 to 170 receives one of three things: a code, an error,
  or the tick of the ten-minute timer.  The server runs beside the waiting flow; the model
  puts the two in one sequence.  The requests reaching the listener are given in order of
  arrival, each with the time elapsed since the flow began waiting; \<open>serve\<close> runs the
  handler on them in that order until one sends on a channel, which is what the flow then
  receives, or until the timer of \<open>d\<close> has fired first.  A request arriving at the very
  instant the timer fires counts as late, and two sends racing for the same \<^verbatim>\<open>select\<close>
  are not modelled: the first send in the sequence is the one received.
\<close>

datatype selected = codeChan_recv string | errChan_recv error | time_After duration

datatype ServerEvent =
    ListenAndServe string
  | Served CallbackRequest "Written option"
  | Shutdown duration

fun serve ::
  "string \<Rightarrow> duration \<Rightarrow> (duration \<times> CallbackRequest) list \<Rightarrow> ServerEvent list \<times> selected" where
  "serve state d [] = ([], time_After d)"
| "serve state d ((at, r) # rs) =
     (if d \<le> at then ([], time_After d)
      else case Handler state r of
        (w, Some (codeChan_send code)) \<Rightarrow> ([Served r w], codeChan_recv code)
      | (w, Some (errChan_send err)) \<Rightarrow> ([Served r w], errChan_recv err)
      | (w, None) \<Rightarrow> (case serve state d rs of (evs, sel) \<Rightarrow> (Served r w # evs, sel)))"

definition is_Shutdown :: "ServerEvent \<Rightarrow> bool" where
  "is_Shutdown ev = (case ev of Shutdown d \<Rightarrow> True | _ \<Rightarrow> False)"

text \<open>Line 78: the state string of one invocation, from the clock reading \<open>now\<close>.\<close>

definition mint_state :: "instant \<Rightarrow> string" where
  "mint_state now = ''random-state-'' @ Sprintf_d (Unix now)"

text \<open>
  \<open>listen\<close> is what \<^verbatim>\<open>ListenAndServe\<close> does: \<open>Some e\<close> when it returns at once with
  an error other than \<^verbatim>\<open>ErrServerClosed\<close> (the port is taken), so that no request is
  ever served and the error goes to the error channel; \<open>None\<close> when it serves.  The three
  lines the server's goroutine logs are placed before the waiting.  The result carries the
  error returned, the system state, and what happened to the server, in order: the
  \<^verbatim>\<open>Shutdown\<close> of each branch with the time its context allows.
\<close>

definition OAuthUseCase_CompleteAuthenticationWithServer ::
  "('w, 'c) OAuthService \<Rightarrow> instant \<Rightarrow> error option \<Rightarrow> (duration \<times> CallbackRequest) list \<Rightarrow>
     'w sys \<Rightarrow> (error option \<times> 'w sys) \<times> ServerEvent list" where
  "OAuthUseCase_CompleteAuthenticationWithServer svc now listen reqs s0 =
     (let s1 = Printf ''Starting OAuth2 flow with local server...'' s0;
          state = mint_state now in
      case OAuthService_GetAuthURLWithState svc state s1 of
        (authURL, s2) \<Rightarrow>
          (let s3 = Printf authURL
                      (Printf ''Visit this URL in your browser to authorize:''
                        (Printf ''Starting local server on http://localhost:8080'' s2)) in
           case (case listen of
                   Some e \<Rightarrow> ([], errChan_recv (ServerError e))
                 | None \<Rightarrow> serve state (10 * Minute) reqs) of
             (evs, codeChan_recv code) \<Rightarrow>
               (OAuthUseCase_CompleteAuthentication svc code s3,
                ListenAndServe '':8080'' # evs @ [Shutdown (5 * Second)])
           | (evs, errChan_recv err) \<Rightarrow>
               ((Some err, s3), ListenAndServe '':8080'' # evs @ [Shutdown (5 * Second)])
           | (evs, time_After d) \<Rightarrow>
               ((Some OAuthFlowTimedOut, s3),
                ListenAndServe '':8080'' # evs @ [Shutdown (5 * Second)])))"

definition OAuthUseCase_GetAuthURL :: "('w, 'c) OAuthService \<Rightarrow> 'w sys \<Rightarrow> string \<times> 'w sys" where
  "OAuthUseCase_GetAuthURL svc s = OAuthService_GetAuthURL svc s"

definition OAuthUseCase_LoadToken ::
  "('w, 'c) OAuthService \<Rightarrow> 'w sys \<Rightarrow> (error + Token option) \<times> 'w sys" where
  "OAuthUseCase_LoadToken svc s = OAuthService_LoadToken svc s"

text \<open>
  A recording double of the service: it behaves as \<open>svc\<close> does on the first component
  of the world and appends each call it receives to the second.
\<close>

datatype OAuthCall =
    GetClient_call
  | LoadToken_call
  | SaveToken_call "Token option"
  | ExchangeCode_call string
  | GetAuthURL_call
  | GetAuthURLWithState_call string

definition spy ::
  "'k \<Rightarrow> ('w sys \<Rightarrow> 'a \<times> 'w sys) \<Rightarrow> ('w \<times> 'k list) sys \<Rightarrow> 'a \<times> ('w \<times> 'k list) sys" where
  "spy c m s =
     (case m \<lparr>world = fst (world s), logged = logged s\<rparr> of
        (r, s') \<Rightarrow> (r, \<lparr>world = (world s', snd (world s) @ [c]), logged = logged s'\<rparr>))"

definition recording :: "('w, 'c) OAuthService \<Rightarrow> ('w \<times> OAuthCall list, 'c) OAuthService" where
  "recording svc =
     \<lparr>OAuthService_GetClient = spy GetClient_call (OAuthService_GetClient svc),
      OAuthService_LoadToken = spy LoadToken_call (OAuthService_LoadToken svc),
      OAuthService_SaveToken = (\<lambda>tok. spy (SaveToken_call tok) (OAuthService_SaveToken svc tok)),
      OAuthService_ExchangeCode =
        (\<lambda>code. spy (ExchangeCode_call code) (OAuthService_ExchangeCode svc code)),
      OAuthService_GetAuthURL = spy GetAuthURL_call (OAuthService_GetAuthURL svc),
      OAuthService_GetAuthURLWithState =
        (\<lambda>state. spy (GetAuthURLWithState_call state) (OAuthService_GetAuthURLWithState svc state))\<rparr>"

definition calls :: "('w \<times> 'k list) sys \<Rightarrow> 'k list" where
  "calls s = snd (world s)"

definition inner :: "('w \<times> 'k list) sys \<Rightarrow> 'w sys" where
  "inner s = \<lparr>world = fst (world s), logged = logged s\<rparr>"

section \<open>OAuth repository (internal/repository/oauth\_repository.go)\<close>

text \<open>
  The repository's world: the files by name, and what the next \<^verbatim>\<open>os.Create\<close> and the
  next write to a file will do.  \<open>Create_fails = Some e\<close>: the file cannot be created and is
  left as it is.  \<open>Write_fails = Some (n, e)\<close>: the write stops with error \<open>e\<close> after \<open>n\<close>
  bytes.  \<^verbatim>\<open>os.Create\<close> truncates an existing file; \<^verbatim>\<open>os.Open\<close> fails on a missing one.
\<close>

record Disk =
  files :: "string \<rightharpoonup> string"
  Create_fails :: "error option"
  Write_fails :: "(nat \<times> error) option"

text \<open>
  What the repository takes from encoding/json and oauth2.  \<open>json_Decode_Token\<close> is
  \<^verbatim>\<open>Decoder.Decode\<close> into a Token, on the file's bytes; \<open>json_Encode_Token\<close> the bytes
  \<^verbatim>\<open>Encoder.Encode\<close> produces; \<open>config_Exchange\<close> the token endpoint's answer to a code;
  \<open>config_AuthCodeURL\<close> the authorization URL for a state.
\<close>

record OAuthLib =
  json_Decode_Token :: "string \<Rightarrow> error + Token"
  json_Encode_Token :: "Token option \<Rightarrow> error + string"
  config_Exchange :: "string \<Rightarrow> error + Token option"
  config_AuthCodeURL :: "string \<Rightarrow> string"

definition tokenFile :: string where
  "tokenFile = ''token.json''"

definition os_Open :: "string \<Rightarrow> Disk \<Rightarrow> error + string" where
  "os_Open name d =
     (case files d name of
        None \<Rightarrow> Inl (External (''open '' @ name @ '': no such file or directory''))
      | Some bytes \<Rightarrow> Inr bytes)"

text \<open>
  \<^verbatim>\<open>LoadToken\<close> returns \<^verbatim>\<open>&tok, err\<close>: on a decoding error the pointer is not nil, but
  every caller looks at the error first, so the result is the error alone.
\<close>

definition OAuthRepository_LoadToken :: "OAuthLib \<Rightarrow> Disk \<Rightarrow> (error + Token option) \<times> Disk" where
  "OAuthRepository_LoadToken lib d =
     (case os_Open tokenFile d of
        Inl err \<Rightarrow> (Inl err, d)
      | Inr bytes \<Rightarrow>
          (case json_Decode_Token lib bytes of
             Inl err \<Rightarrow> (Inl err, d)
           | Inr tok \<Rightarrow> (Inr (Some tok), d)))"

definition OAuthRepository_SaveToken :: "OAuthLib \<Rightarrow> Token option \<Rightarrow> Disk \<Rightarrow> error option \<times> Disk" where
  "OAuthRepository_SaveToken lib tok d =
     (case Create_fails d of
        Some err \<Rightarrow> (Some (FailedToCreateTokenFile err), d)
      | None \<Rightarrow>
          (let d1 = d\<lparr>files := (files d)(tokenFile \<mapsto> [])\<rparr> in
           case json_Encode_Token lib tok of
             Inl err \<Rightarrow> (Some err, d1)
           | Inr bytes \<Rightarrow>
               (case Write_fails d1 of
                  Some (n, err) \<Rightarrow> (Some err, d1\<lparr>files := (files d1)(tokenFile \<mapsto> take n bytes)\<rparr>)
                | None \<Rightarrow> (None, d1\<lparr>files := (files d1)(tokenFile \<mapsto> bytes)\<rparr>))))"

definition OAuthRepository_ExchangeCode :: "OAuthLib \<Rightarrow> string \<Rightarrow> Disk \<Rightarrow> (error + Token option) \<times> Disk" where
  "OAuthRepository_ExchangeCode lib code d = (config_Exchange lib code, d)"

definition OAuthRepository_GetAuthURL :: "OAuthLib \<Rightarrow> Disk \<Rightarrow> string \<times> Disk" where
  "OAuthRepository_GetAuthURL lib d = (config_AuthCodeURL lib ''state-token'', d)"

definition OAuthRepository_GetClient :: "'c \<Rightarrow> Disk \<Rightarrow> (error + 'c) \<times> Disk" where
  "OAuthRepository_GetClient config d = (Inr config, d)"

text \<open>
  The repository as an \<open>OAuthService\<close>.  Its \<^verbatim>\<open>GetAuthURLWithState\<close> is not among the
  sources, so it is the parameter \<open>withState\<close>.
\<close>

definition OAuthRepository ::
  "OAuthLib \<Rightarrow> 'c \<Rightarrow> (string \<Rightarrow> Disk \<Rightarrow> string \<times> Disk) \<Rightarrow> (Disk, 'c) OAuthService" where
  "OAuthRepository lib config withState =
     \<lparr>OAuthService_GetClient = invoke (OAuthRepository_GetClient config),
      OAuthService_LoadToken = invoke (OAuthRepository_LoadToken lib),
      OAuthService_SaveToken = (\<lambda>tok. invoke (OAuthRepository_SaveToken lib tok)),
      OAuthService_ExchangeCode = (\<lambda>code. invoke (OAuthRepository_ExchangeCode lib code)),
      OAuthService_GetAuthURL = invoke (OAuthRepository_GetAuthURL lib),
      OAuthService_GetAuthURLWithState = (\<lambda>state. invoke (withState state))\<rparr>"

section \<open>Albums: domain and repository\<close>

record Album =
  ID :: string
  Title :: string

record AlbumsResponse =
  Albums :: "Album list"
  NextPageToken :: string

text \<open>
  An HTTP request as the repository builds it, and the response as it reads it:
  \<open>Body\<close> is the bytes read to the end, or the error the read ends in.
\<close>

record Request =
  Method :: string
  URL :: string
  Header :: "(string \<times> string) list"
  Payload :: "string option"

record Response =
  StatusCode :: int
  Status :: string
  Body :: "error + string"

text \<open>
  What the album repository takes from net/url and encoding/json: \<open>url_Parse\<close> is the
  error \<^verbatim>\<open>http.NewRequest\<close> returns for a URL it cannot parse; \<open>json_Marshal\<close> encodes
  the body \<^verbatim>\<open>{"album": {"title": title}}\<close> for a title; the two decoders read a body.
\<close>

record AlbumLib =
  url_Parse :: "string \<Rightarrow> error option"
  json_Marshal :: "string \<Rightarrow> error + string"
  json_Decode_Album :: "string \<Rightarrow> error + Album"
  json_Unmarshal_AlbumsResponse :: "string \<Rightarrow> error + AlbumsResponse"

type_synonym 'w Client = "Request \<Rightarrow> 'w \<Rightarrow> (error + Response) \<times> 'w"

definition albumsEndpoint :: string where
  "albumsEndpoint = ''https://photoslibrary.googleapis.com/v1/albums''"

definition http_StatusOK :: int where
  "http_StatusOK = 200"

definition http_NewRequest :: "AlbumLib \<Rightarrow> string \<Rightarrow> string \<Rightarrow> string option \<Rightarrow> error + Request" where
  "http_NewRequest lib method url body =
     (case url_Parse lib url of
        Some err \<Rightarrow> Inl err
      | None \<Rightarrow> Inr \<lparr>Method = method, URL = url, Header = [], Payload = body\<rparr>)"

definition Header_Set :: "string \<Rightarrow> string \<Rightarrow> Request \<Rightarrow> Request" where
  "Header_Set k v req = req\<lparr>Header := (k, v) # filter (\<lambda>(k', _). k' \<noteq> k) (Header req)\<rparr>"

definition GooglePhotosRepository_makeAlbumsRequest ::
  "AlbumLib \<Rightarrow> 'w Client \<Rightarrow> string \<Rightarrow> 'w sys \<Rightarrow> (error + Response) \<times> 'w sys" where
  "GooglePhotosRepository_makeAlbumsRequest lib client url s =
     (case http_NewRequest lib ''GET'' url None of
        Inl err \<Rightarrow> (Inl (FailedToCreateRequest err), s)
      | Inr req \<Rightarrow> invoke (client (Header_Set ''Content-Type'' ''application/json'' req)) s)"

definition GooglePhotosRepository_readAndParseResponse ::
  "AlbumLib \<Rightarrow> Response \<Rightarrow> 'w sys \<Rightarrow> (error + AlbumsResponse) \<times> 'w sys" where
  "GooglePhotosRepository_readAndParseResponse lib resp s =
     (if StatusCode resp \<noteq> http_StatusOK then (Inl (UnexpectedStatusCode (StatusCode resp)), s)
      else case Body resp of
        Inl err \<Rightarrow> (Inl (FailedToReadResponseBody err), s)
      | Inr body \<Rightarrow>
          (let s1 = Printf (''Raw API Response: '' @ body) s in
           case json_Unmarshal_AlbumsResponse lib body of
             Inl err \<Rightarrow> (Inl (FailedToDecodeJSON err), s1)
           | Inr data \<Rightarrow> (Inr data, s1)))"

definition GooglePhotosRepository_ListAlbums ::
  "AlbumLib \<Rightarrow> 'w Client \<Rightarrow> 'w sys \<Rightarrow> (error + AlbumsResponse) \<times> 'w sys" where
  "GooglePhotosRepository_ListAlbums lib client s =
     (case GooglePhotosRepository_makeAlbumsRequest lib client albumsEndpoint s of
        (Inl err, s1) \<Rightarrow> (Inl (FailedToMakeAlbumsRequest err), s1)
      | (Inr resp, s1) \<Rightarrow> GooglePhotosRepository_readAndParseResponse lib resp s1)"

text \<open>
  In \<^verbatim>\<open>GetAlbumByID\<close> and \<^verbatim>\<open>CreateAlbum\<close> the decoder reads the body itself, so an error
  of the read is an error of the decoding.
\<close>

definition GooglePhotosRepository_GetAlbumByID ::
  "AlbumLib \<Rightarrow> 'w Client \<Rightarrow> string \<Rightarrow> 'w sys \<Rightarrow> (error + Album) \<times> 'w sys" where
  "GooglePhotosRepository_GetAlbumByID lib client albumID s =
     (let url = albumsEndpoint @ ''/'' @ albumID in
      case http_NewRequest lib ''GET'' url None of
        Inl err \<Rightarrow> (Inl (FailedToCreateRequest err), s)
      | Inr req \<Rightarrow>
          (case invoke (client (Header_Set ''Content-Type'' ''application/json'' req)) s of
             (Inl err, s1) \<Rightarrow> (Inl (FailedToFetchAlbum err), s1)
           | (Inr resp, s1) \<Rightarrow>
               if StatusCode resp \<noteq> http_StatusOK then (Inl (APIError (Status resp)), s1)
               else (case Body resp of
                       Inl err \<Rightarrow> (Inl (FailedToDecodeAlbum err), s1)
                     | Inr body \<Rightarrow>
                         (case json_Decode_Album lib body of
                            Inl err \<Rightarrow> (Inl (FailedToDecodeAlbum err), s1)
                          | Inr album \<Rightarrow> (Inr album, s1)))))"

definition GooglePhotosRepository_CreateAlbum ::
  "AlbumLib \<Rightarrow> 'w Client \<Rightarrow> string \<Rightarrow> 'w sys \<Rightarrow> (error + Album) \<times> 'w sys" where
  "GooglePhotosRepository_CreateAlbum lib client title s =
     (case json_Marshal lib title of
        Inl err \<Rightarrow> (Inl (FailedToMarshalRequestBody err), s)
      | Inr jsonBody \<Rightarrow>
          (case http_NewRequest lib ''POST'' albumsEndpoint (Some jsonBody) of
             Inl err \<Rightarrow> (Inl (FailedToCreateRequest err), s)
           | Inr req \<Rightarrow>
               (case invoke (client (Header_Set ''Content-Type'' ''application/json'' req)) s of
                  (Inl err, s1) \<Rightarrow> (Inl (CreateAlbumFailed err), s1)
                | (Inr resp, s1) \<Rightarrow>
                    (case Body resp of
                       Inl err \<Rightarrow> (Inl (FailedToDecodeResponse err), s1)
                     | Inr body \<Rightarrow>
                         (case json_Decode_Album lib body of
                            Inl err \<Rightarrow> (Inl (FailedToDecodeResponse err), s1)
                          | Inr album \<Rightarrow> (Inr album, s1))))))"

definition GooglePhotosRepository_FetchNextPage ::
  "AlbumLib \<Rightarrow> 'w Client \<Rightarrow> string \<Rightarrow> 'w sys \<Rightarrow> (error + AlbumsResponse) \<times> 'w sys" where
  "GooglePhotosRepository_FetchNextPage lib client nextPageToken s =
     (let nextPageURL = albumsEndpoint @ ''?pageToken='' @ nextPageToken in
      case GooglePhotosRepository_makeAlbumsRequest lib client nextPageURL s of
        (Inl err, s1) \<Rightarrow> (Inl (FailedToFetchNextPage err), s1)
      | (Inr resp, s1) \<Rightarrow> GooglePhotosRepository_readAndParseResponse lib resp s1)"

text \<open>
  \<^verbatim>\<open>domain.AlbumRepository\<close>.  A successful call yields a response that is not nil, as
  every call of \<open>GooglePhotosRepository\<close> does.
\<close>

record 'w AlbumRepository =
  AlbumRepository_ListAlbums :: "'w sys \<Rightarrow> (error + AlbumsResponse) \<times> 'w sys"
  AlbumRepository_GetAlbumByID :: "string \<Rightarrow> 'w sys \<Rightarrow> (error + Album) \<times> 'w sys"
  AlbumRepository_CreateAlbum :: "string \<Rightarrow> 'w sys \<Rightarrow> (error + Album) \<times> 'w sys"
  AlbumRepository_FetchNextPage :: "string \<Rightarrow> 'w sys \<Rightarrow> (error + AlbumsResponse) \<times> 'w sys"

definition GooglePhotosRepository :: "AlbumLib \<Rightarrow> 'w Client \<Rightarrow> 'w AlbumRepository" where
  "GooglePhotosRepository lib client =
     \<lparr>AlbumRepository_ListAlbums = GooglePhotosRepository_ListAlbums lib client,
      AlbumRepository_GetAlbumByID = GooglePhotosRepository_GetAlbumByID lib client,
      AlbumRepository_CreateAlbum = GooglePhotosRepository_CreateAlbum lib client,
      AlbumRepository_FetchNextPage = GooglePhotosRepository_FetchNextPage lib client\<rparr>"

section \<open>Album use case (internal/usecase/album\_usecase.go)\<close>

definition AlbumUseCase_ListAlbums ::
  "'w AlbumRepository \<Rightarrow> 'w sys \<Rightarrow> (error + AlbumsResponse) \<times> 'w sys" where
  "AlbumUseCase_ListAlbums repo s0 =
     (let s1 = Printf ''Fetching albums...'' s0 in
      case AlbumRepository_ListAlbums repo s1 of
        (Inl err, s2) \<Rightarrow> (Inl err, Printf (''Failed to fetch albums: '' @ Error err) s2)
      | (Inr response, s2) \<Rightarrow>
          (let s3 = Printf (''Successfully fetched '' @ Sprintf_d (int (length (Albums response)))
                             @ '' albums'') s2 in
           if NextPageToken response \<noteq> []
           then (Inr response, Printf ''More albums available on next page'' s3)
           else (Inr response, s3)))"

definition AlbumUseCase_GetAlbumByID ::
  "'w AlbumRepository \<Rightarrow> string \<Rightarrow> 'w sys \<Rightarrow> (error + Album) \<times> 'w sys" where
  "AlbumUseCase_GetAlbumByID repo albumID s0 =
     (let s1 = Printf (''Fetching album with ID: '' @ albumID) s0 in
      case AlbumRepository_GetAlbumByID repo albumID s1 of
        (Inl err, s2) \<Rightarrow>
          (Inl err, Printf (''Failed to fetch album '' @ albumID @ '': '' @ Error err) s2)
      | (Inr album, s2) \<Rightarrow>
          (Inr album, Printf (''Successfully fetched album: '' @ Title album) s2))"

definition AlbumUseCase_CreateAlbum ::
  "'w AlbumRepository \<Rightarrow> string \<Rightarrow> 'w sys \<Rightarrow> (error + Album) \<times> 'w sys" where
  "AlbumUseCase_CreateAlbum repo title s0 =
     (let s1 = Printf (''Creating album with title: '' @ title) s0 in
      case AlbumRepository_CreateAlbum repo title s1 of
        (Inl err, s2) \<Rightarrow>
          (Inl err, Printf (''Failed to create album '' @ title @ '': '' @ Error err) s2)
      | (Inr album, s2) \<Rightarrow>
          (Inr album,
           Printf (''Successfully created album: '' @ Title album @ '' with ID: '' @ ID album) s2))"

definition AlbumUseCase_FetchNextPage ::
  "'w AlbumRepository \<Rightarrow> string \<Rightarrow> 'w sys \<Rightarrow> (error + AlbumsResponse) \<times> 'w sys" where
  "AlbumUseCase_FetchNextPage repo nextPageToken s0 =
     (let s1 = Printf ''Fetching next page of albums...'' s0 in
      case AlbumRepository_FetchNextPage repo nextPageToken s1 of
        (Inl err, s2) \<Rightarrow> (Inl err, Printf (''Failed to fetch next page: '' @ Error err) s2)
      | (Inr response, s2) \<Rightarrow>
          (Inr response,
           Printf (''Successfully fetched '' @ Sprintf_d (int (length (Albums response)))
                    @ '' albums from next page'') s2))"

section \<open>Command-line handler (internal/delivery/cli\_handler.go)\<close>

definition CLIHandler_printAlbums :: "Album list \<Rightarrow> 'w sys \<Rightarrow> 'w sys" where
  "CLIHandler_printAlbums albums s =
     (if length albums = 0 then Printf ''No albums found.'' s
      else fold (\<lambda>album. Printf (''- '' @ Title album @ '' ('' @ ID album @ '')'')) albums
             (Printf ''Albums:'' s))"

definition CLIHandler_HandleNextPage :: "'w AlbumRepository \<Rightarrow> string \<Rightarrow> 'w sys \<Rightarrow> 'w sys" where
  "CLIHandler_HandleNextPage repo nextPageToken s0 =
     (let s1 = Printf ''--- Fetching Next Page ---'' s0 in
      case AlbumUseCase_FetchNextPage repo nextPageToken s1 of
        (Inl err, s2) \<Rightarrow> Printf (''Failed to fetch next page: '' @ Error err) s2
      | (Inr response, s2) \<Rightarrow>
          if length (Albums response) > 0
          then CLIHandler_printAlbums (Albums response)
                 (Printf (''Found '' @ Sprintf_d (int (length (Albums response)))
                           @ '' albums on next page:'') s2)
          else s2)"

definition CLIHandler_handleNextPage :: "'w AlbumRepository \<Rightarrow> string \<Rightarrow> 'w sys \<Rightarrow> 'w sys" where
  "CLIHandler_handleNextPage repo nextPageToken s = CLIHandler_HandleNextPage repo nextPageToken s"

definition CLIHandler_HandleListAlbums :: "'w AlbumRepository \<Rightarrow> 'w sys \<Rightarrow> 'w sys" where
  "CLIHandler_HandleListAlbums repo s0 =
     (let s1 = Printf ''--- Listing Albums ---'' s0 in
      case AlbumUseCase_ListAlbums repo s1 of
        (Inl err, s2) \<Rightarrow> Printf (''Failed to list albums: '' @ Error err) s2
      | (Inr response, s2) \<Rightarrow>
          (let s3 = CLIHandler_printAlbums (Albums response) s2 in
           if NextPageToken response \<noteq> []
           then CLIHandler_handleNextPage repo (NextPageToken response)
                  (Printf (''Next page token: '' @ NextPageToken response) s3)
           else s3))"

text \<open>A recording double of the album repository, as \<open>recording\<close> is of the service.\<close>

datatype AlbumCall =
    ListAlbums_call
  | GetAlbumByID_call string
  | CreateAlbum_call string
  | FetchNextPage_call string

definition recording_albums :: "'w AlbumRepository \<Rightarrow> ('w \<times> AlbumCall list) AlbumRepository" where
  "recording_albums repo =
     \<lparr>AlbumRepository_ListAlbums = spy ListAlbums_call (AlbumRepository_ListAlbums repo),
      AlbumRepository_GetAlbumByID =
        (\<lambda>i. spy (GetAlbumByID_call i) (AlbumRepository_GetAlbumByID repo i)),
      AlbumRepository_CreateAlbum =
        (\<lambda>t. spy (CreateAlbum_call t) (AlbumRepository_CreateAlbum repo t)),
      AlbumRepository_FetchNextPage =
        (\<lambda>p. spy (FetchNextPage_call p) (AlbumRepository_FetchNextPage repo p))\<rparr>"

section \<open>Sample worlds\<close>

text \<open>
  Concrete collaborators on which the theorems below are run.  The libraries are stand-ins
  that answer a handful of inputs the way the real ones do: \<open>{}\<close> is a JSON object
  with none of a record's fields, which the decoders of encoding/json turn into the zero
  record without an error.
\<close>

definition sample_Token :: Token where
  "sample_Token =
     \<lparr>AccessToken = ''expired-token'', TokenType = ''Bearer'',
      RefreshToken = ''refresh-token'', Expiry = Some 1000\<rparr>"

definition sample_OAuthLib :: OAuthLib where
  "sample_OAuthLib =
     \<lparr>json_Decode_Token =
        (\<lambda>bytes. if bytes = ''stored'' then Inr sample_Token
                 else Inl (External ''invalid character'')),
      json_Encode_Token = (\<lambda>tok. Inr ''new-token''),
      config_Exchange =
        (\<lambda>code. if code = ''good'' then Inr (Some sample_Token)
                else Inl (External ''oauth2: cannot fetch token'')),
      config_AuthCodeURL = (\<lambda>state. ''https://accounts.example/auth?state='' @ state)\<rparr>"

definition sample_withState :: "string \<Rightarrow> Disk \<Rightarrow> string \<times> Disk" where
  "sample_withState state d = (config_AuthCodeURL sample_OAuthLib state, d)"

definition sample_OAuthRepository :: "(Disk, unit) OAuthService" where
  "sample_OAuthRepository = OAuthRepository sample_OAuthLib () sample_withState"

definition sample_Disk :: "string \<Rightarrow> Disk" where
  "sample_Disk bytes =
     \<lparr>files = [tokenFile \<mapsto> bytes], Create_fails = None, Write_fails = None\<rparr>"

definition empty_Disk :: Disk where
  "empty_Disk = \<lparr>files = Map.empty, Create_fails = None, Write_fails = None\<rparr>"

definition answering :: "Response \<Rightarrow> 'w Client" where
  "answering resp req w = (Inr resp, w)"

definition sample_AlbumLib :: AlbumLib where
  "sample_AlbumLib =
     \<lparr>url_Parse = (\<lambda>url. None),
      json_Marshal = (\<lambda>title. Inr (''{album:{title:'' @ title @ ''}}'')),
      json_Decode_Album =
        (\<lambda>body. if body = ''{}'' then Inr \<lparr>ID = [], Title = []\<rparr>
                else Inl (External ''unexpected end of JSON input'')),
      json_Unmarshal_AlbumsResponse =
        (\<lambda>body. if body = ''{}'' then Inr \<lparr>Albums = [], NextPageToken = []\<rparr>
                else Inl (External ''unexpected end of JSON input''))\<rparr>"

text \<open>
  The requests the album repository sends: a GET of a URL, and the POST of a body to a
  URL, each with the JSON content type set.
\<close>

definition GET :: "string \<Rightarrow> Request" where
  "GET url =
     Header_Set ''Content-Type'' ''application/json''
       \<lparr>Method = ''GET'', URL = url, Header = [], Payload = None\<rparr>"

definition POST :: "string \<Rightarrow> string \<Rightarrow> Request" where
  "POST url body =
     Header_Set ''Content-Type'' ''application/json''
       \<lparr>Method = ''POST'', URL = url, Header = [], Payload = Some body\<rparr>"

text \<open>
  A repository double whose first page names a next page \<open>XYZ\<close>, and whose next page
  names yet another.
\<close>

definition sample_pages :: "unit AlbumRepository" where
  "sample_pages =
     \<lparr>AlbumRepository_ListAlbums =
        (\<lambda>s. (Inr \<lparr>Albums = [\<lparr>ID = ''1'', Title = ''A''\<rparr>, \<lparr>ID = ''2'', Title = ''B''\<rparr>],
                     NextPageToken = ''XYZ''\<rparr>, s)),
      AlbumRepository_GetAlbumByID = (\<lambda>i s. (Inl (External ''not found''), s)),
      AlbumRepository_CreateAlbum = (\<lambda>t s. (Inl (External ''not allowed''), s)),
      AlbumRepository_FetchNextPage =
        (\<lambda>p s. (Inr \<lparr>Albums = [\<lparr>ID = ''3'', Title = ''C''\<rparr>], NextPageToken = ''MORE''\<rparr>, s))\<rparr>"

section \<open>Auxiliary facts\<close>

lemma inner_Printf: "inner (Printf l s) = Printf l (inner s)"
  by (simp add: inner_def Printf_def)

lemma calls_Printf: "calls (Printf l s) = calls s"
  by (simp add: calls_def Printf_def)

lemma inner_mk: "inner \<lparr>world = (world s', cs), logged = logged s'\<rparr> = (s' :: 'w sys)"
  by (simp add: inner_def)

lemma calls_mk: "calls \<lparr>world = (w, cs), logged = l\<rparr> = cs"
  by (simp add: calls_def)

lemma spy_unfold:
  "spy c m s =
     (case m (inner s) of
        (r, s') \<Rightarrow> (r, \<lparr>world = (world s', calls s @ [c]), logged = logged s'\<rparr>))"
  by (simp add: spy_def inner_def calls_def)

lemma invoke_unfold:
  "invoke m \<lparr>world = w, logged = l\<rparr> =
     (case m w of (r, w') \<Rightarrow> (r, \<lparr>world = w', logged = l\<rparr>))"
  by (simp add: invoke_def)

lemma recording_simps:
  "OAuthService_GetClient (recording svc) = spy GetClient_call (OAuthService_GetClient svc)"
  "OAuthService_LoadToken (recording svc) = spy LoadToken_call (OAuthService_LoadToken svc)"
  "OAuthService_SaveToken (recording svc) tok =
     spy (SaveToken_call tok) (OAuthService_SaveToken svc tok)"
  "OAuthService_ExchangeCode (recording svc) code =
     spy (ExchangeCode_call code) (OAuthService_ExchangeCode svc code)"
  "OAuthService_GetAuthURL (recording svc) = spy GetAuthURL_call (OAuthService_GetAuthURL svc)"
  "OAuthService_GetAuthURLWithState (recording svc) st =
     spy (GetAuthURLWithState_call st) (OAuthService_GetAuthURLWithState svc st)"
  by (simp_all add: recording_def)

lemma OAuthRepository_simps:
  "OAuthService_GetClient (OAuthRepository lib config ws) =
     invoke (OAuthRepository_GetClient config)"
  "OAuthService_LoadToken (OAuthRepository lib config ws) =
     invoke (OAuthRepository_LoadToken lib)"
  "OAuthService_SaveToken (OAuthRepository lib config ws) tok =
     invoke (OAuthRepository_SaveToken lib tok)"
  "OAuthService_ExchangeCode (OAuthRepository lib config ws) code =
     invoke (OAuthRepository_ExchangeCode lib code)"
  "OAuthService_GetAuthURL (OAuthRepository lib config ws) =
     invoke (OAuthRepository_GetAuthURL lib)"
  "OAuthService_GetAuthURLWithState (OAuthRepository lib config ws) st = invoke (ws st)"
  by (simp_all add: OAuthRepository_def)

lemma sample_simps:
  "OAuthService_GetClient sample_OAuthRepository = invoke (OAuthRepository_GetClient ())"
  "OAuthService_LoadToken sample_OAuthRepository =
     invoke (OAuthRepository_LoadToken sample_OAuthLib)"
  "OAuthService_SaveToken sample_OAuthRepository tok =
     invoke (OAuthRepository_SaveToken sample_OAuthLib tok)"
  "OAuthService_ExchangeCode sample_OAuthRepository code =
     invoke (OAuthRepository_ExchangeCode sample_OAuthLib code)"
  "OAuthService_GetAuthURLWithState sample_OAuthRepository st = invoke (sample_withState st)"
  by (simp_all add: sample_OAuthRepository_def OAuthRepository_def)

lemma LoadToken_stored:
  "OAuthRepository_LoadToken sample_OAuthLib (sample_Disk ''stored'') =
     (Inr (Some sample_Token), sample_Disk ''stored'')"
  by (simp add: OAuthRepository_LoadToken_def os_Open_def sample_Disk_def sample_OAuthLib_def)

lemma expired_past: "Expiry t = Some e \<Longrightarrow> e < now \<Longrightarrow> expired now t"
  by (simp add: expired_def expiryDelta_def Second_def)

lemma Unix_first: "Unix 1700000000000000000 = 1700000000"
  by (simp add: Unix_def Second_def)

lemma Unix_last: "Unix 1700000000999999999 = 1700000000"
  by (simp add: Unix_def Second_def)

lemma Sprintf_d_1700000000: "Sprintf_d 1700000000 = ''1700000000''"
  by (simp add: Sprintf_d_def digit_def decimal.simps)

section \<open>The state string (C2)\<close>

text \<open>
  C2.  The claim: every invocation of the local-server flow mints a fresh, random state,
  so that two invocations produce distinct, unpredictable strings.  The code builds the
  string from the clock alone, in whole seconds: two invocations begun at different
  instants of the same second, here the first and the last nanosecond of second
  1700000000, carry the same state, and it is the decimal rendering of that second.
\<close>

theorem mint_state_repeats_within_second:
  "(1700000000000000000 :: instant) \<noteq> 1700000000999999999 \<and>
   mint_state 1700000000000000000 = ''random-state-1700000000'' \<and>
   mint_state 1700000000999999999 = ''random-state-1700000000''"
  by (simp add: mint_state_def Unix_first Unix_last Sprintf_d_1700000000)

section \<open>Authentication with a stored token (C7, C10)\<close>

text \<open>
  C7.  With a stored token whose expiry lies in the past, \<open>AuthenticateClient\<close> returns
  the configuration and no error, through the branch that logs the token as expired
  (not the one that accepts it as valid), and the only calls the service receives are
  \<open>GetClient\<close> and \<open>LoadToken\<close>: no code or refresh token is exchanged and nothing is
  saved, whatever the token's refresh token is.
\<close>

theorem AuthenticateClient_expired_token:
  assumes g: "OAuthService_GetClient svc
                (Printf ''Starting OAuth2 authentication...'' (inner s)) = (Inr config, s2)"
    and l: "OAuthService_LoadToken svc s2 = (Inr (Some t), s3)"
    and e: "Expiry t = Some e" "e < now"
  shows "OAuthUseCase_AuthenticateClient (recording svc) now s =
           (Inr config,
            \<lparr>world = (world s3, calls s @ [GetClient_call, LoadToken_call]),
             logged = logged s3 @ [''Token expired, starting OAuth flow...'']\<rparr>)"
proof -
  let ?s1 = "Printf ''Starting OAuth2 authentication...'' s"
  let ?s2 = "\<lparr>world = (world s2, calls s @ [GetClient_call]), logged = logged s2\<rparr>"
  let ?s3 = "\<lparr>world = (world s3, calls s @ [GetClient_call, LoadToken_call]),
             logged = logged s3\<rparr>"
  have 1: "OAuthService_GetClient (recording svc) ?s1 = (Inr config, ?s2)"
    by (simp add: recording_simps spy_unfold inner_Printf calls_Printf g)
  have 2: "OAuthService_LoadToken (recording svc) ?s2 = (Inr (Some t), ?s3)"
    by (simp add: recording_simps spy_unfold inner_mk calls_mk l)
  have 3: "\<not> Valid now (Some t)"
    using expired_past [OF e] by (simp add: Valid_def)
  have 4: "Printf ''Token expired, starting OAuth flow...'' ?s3 =
             \<lparr>world = (world s3, calls s @ [GetClient_call, LoadToken_call]),
              logged = logged s3 @ [''Token expired, starting OAuth flow...'']\<rparr>"
    by (simp add: Printf_def)
  show ?thesis
    unfolding OAuthUseCase_AuthenticateClient_def Let_def 1
    by (simp add: 2 3 4)
qed

theorem AuthenticateClient_expired_token_witness:
  "OAuthUseCase_AuthenticateClient (recording sample_OAuthRepository) 2000
     \<lparr>world = (sample_Disk ''stored'', []), logged = []\<rparr> =
   (Inr (),
    \<lparr>world = (sample_Disk ''stored'', [GetClient_call, LoadToken_call]),
     logged = [''Starting OAuth2 authentication...'',
               ''Token expired, starting OAuth flow...'']\<rparr>)"
proof -
  let ?s = "\<lparr>world = (sample_Disk ''stored'', []::OAuthCall list), logged = []\<rparr>"
  let ?s2 = "\<lparr>world = sample_Disk ''stored'',
             logged = [''Starting OAuth2 authentication...'']\<rparr>"
  have g: "OAuthService_GetClient sample_OAuthRepository
             (Printf ''Starting OAuth2 authentication...'' (inner ?s)) = (Inr (), ?s2)"
    by (simp add: sample_simps inner_def Printf_def invoke_def OAuthRepository_GetClient_def)
  have l: "OAuthService_LoadToken sample_OAuthRepository ?s2 = (Inr (Some sample_Token), ?s2)"
    by (simp add: sample_simps invoke_def LoadToken_stored)
  have e: "Expiry sample_Token = Some 1000" "(1000::int) < 2000"
    by (simp_all add: sample_Token_def)
  show ?thesis
    using AuthenticateClient_expired_token [OF g l e] by (simp add: calls_def)
qed

lemma AuthenticateClient_result:
  "fst (OAuthUseCase_AuthenticateClient svc now s) =
   fst (OAuthService_GetClient svc (Printf ''Starting OAuth2 authentication...'' s))"
  unfolding OAuthUseCase_AuthenticateClient_def Let_def
  by (simp split: prod.splits sum.splits)

lemma AuthenticateClient_load_fails:
  assumes "OAuthService_GetClient svc (Printf ''Starting OAuth2 authentication...'' s) =
             (Inr config, s2)"
    and "OAuthService_LoadToken svc s2 = (Inl err, s3)"
  shows "OAuthUseCase_AuthenticateClient svc now s =
           (Inr config, Printf ''No existing token found, starting OAuth flow...'' s3)"
  unfolding OAuthUseCase_AuthenticateClient_def Let_def
  by (simp add: assms)

lemma LoadToken_unreadable:
  assumes "files d tokenFile = None \<or>
           (\<exists>bytes err. files d tokenFile = Some bytes \<and> json_Decode_Token lib bytes = Inl err)"
  shows "\<exists>err. OAuthRepository_LoadToken lib d = (Inl err, d)"
  using assms by (auto simp add: OAuthRepository_LoadToken_def os_Open_def)

lemma AuthenticateClient_repository:
  assumes "files d tokenFile = None \<or>
           (\<exists>bytes err. files d tokenFile = Some bytes \<and> json_Decode_Token lib bytes = Inl err)"
  shows "OAuthUseCase_AuthenticateClient (OAuthRepository lib config ws) now
           \<lparr>world = d, logged = l\<rparr> =
           (Inr config,
            \<lparr>world = d,
             logged = l @ [''Starting OAuth2 authentication...'',
                           ''No existing token found, starting OAuth flow...'']\<rparr>)"
proof -
  obtain err where e: "OAuthRepository_LoadToken lib d = (Inl err, d)"
    using LoadToken_unreadable [OF assms] by blast
  let ?s1 = "\<lparr>world = d, logged = l @ [''Starting OAuth2 authentication...'']\<rparr>"
  have p: "Printf ''Starting OAuth2 authentication...'' \<lparr>world = d, logged = l\<rparr> = ?s1"
    by (simp add: Printf_def)
  have 1: "OAuthService_GetClient (OAuthRepository lib config ws) ?s1 = (Inr config, ?s1)"
    by (simp add: OAuthRepository_simps invoke_unfold OAuthRepository_GetClient_def)
  have 2: "OAuthService_LoadToken (OAuthRepository lib config ws) ?s1 = (Inl err, ?s1)"
    by (simp add: OAuthRepository_simps invoke_unfold e)
  show ?thesis
    using AuthenticateClient_load_fails
      [of "OAuthRepository lib config ws" "\<lparr>world = d, logged = l\<rparr>" config ?s1 err ?s1 now]
    by (simp add: p 1 2 Printf_def)
qed

text \<open>
  C10.  \<open>AuthenticateClient\<close> returns an error exactly when \<open>GetClient\<close> does, and then
  that error: its result is the result of \<open>GetClient\<close>.  Whatever error \<open>LoadToken\<close>
  returns, the configuration comes back with no error and the line logged is the one for
  a token that does not exist yet.  For the repository this covers a token file that is
  missing and one that does not decode: the world is left as it was.
\<close>

theorem AuthenticateClient_swallows_load_failure:
  "fst (OAuthUseCase_AuthenticateClient (svc :: ('w, 'c) OAuthService) now s) =
     fst (OAuthService_GetClient svc (Printf ''Starting OAuth2 authentication...'' s)) \<and>
   (\<forall>config s2 err s3.
      OAuthService_GetClient svc (Printf ''Starting OAuth2 authentication...'' s) =
        (Inr config, s2) \<longrightarrow>
      OAuthService_LoadToken svc s2 = (Inl err, s3) \<longrightarrow>
      OAuthUseCase_AuthenticateClient svc now s =
        (Inr config, Printf ''No existing token found, starting OAuth flow...'' s3)) \<and>
   (\<forall>lib (cfg :: 'c) ws d l.
      files d tokenFile = None \<or>
      (\<exists>bytes err. files d tokenFile = Some bytes \<and> json_Decode_Token lib bytes = Inl err) \<longrightarrow>
      OAuthUseCase_AuthenticateClient (OAuthRepository lib cfg ws) now
        \<lparr>world = d, logged = l\<rparr> =
        (Inr cfg,
         \<lparr>world = d,
          logged = l @ [''Starting OAuth2 authentication...'',
                        ''No existing token found, starting OAuth flow...'']\<rparr>))"
proof (intro conjI allI impI)
  show "fst (OAuthUseCase_AuthenticateClient svc now s) =
     fst (OAuthService_GetClient svc (Printf ''Starting OAuth2 authentication...'' s))"
    by (rule AuthenticateClient_result)
next
  fix config s2 err s3
  assume "OAuthService_GetClient svc (Printf ''Starting OAuth2 authentication...'' s) =
        (Inr config, s2)"
    and "OAuthService_LoadToken svc s2 = (Inl err, s3)"
  then show "OAuthUseCase_AuthenticateClient svc now s =
        (Inr config, Printf ''No existing token found, starting OAuth flow...'' s3)"
    by (rule AuthenticateClient_load_fails)
next
  fix lib :: OAuthLib and cfg :: 'c and ws and d :: Disk and l
  assume "files d tokenFile = None \<or>
      (\<exists>bytes err. files d tokenFile = Some bytes \<and> json_Decode_Token lib bytes = Inl err)"
  then show "OAuthUseCase_AuthenticateClient (OAuthRepository lib cfg ws) now
        \<lparr>world = d, logged = l\<rparr> =
        (Inr cfg,
         \<lparr>world = d,
          logged = l @ [''Starting OAuth2 authentication...'',
                        ''No existing token found, starting OAuth flow...'']\<rparr>)"
    by (rule AuthenticateClient_repository)
qed

theorem AuthenticateClient_swallows_load_failure_witness:
  "OAuthUseCase_AuthenticateClient sample_OAuthRepository 2000
     \<lparr>world = empty_Disk, logged = []\<rparr> =
     (Inr (),
      \<lparr>world = empty_Disk,
       logged = [''Starting OAuth2 authentication...'',
                 ''No existing token found, starting OAuth flow...'']\<rparr>) \<and>
   OAuthUseCase_AuthenticateClient sample_OAuthRepository 2000
     \<lparr>world = sample_Disk ''garbled'', logged = []\<rparr> =
     (Inr (),
      \<lparr>world = sample_Disk ''garbled'',
       logged = [''Starting OAuth2 authentication...'',
                 ''No existing token found, starting OAuth flow...'']\<rparr>)"
proof -
  have 1: "files empty_Disk tokenFile = None \<or>
         (\<exists>bytes err. files empty_Disk tokenFile = Some bytes \<and>
            json_Decode_Token sample_OAuthLib bytes = Inl err)"
    by (simp add: empty_Disk_def)
  have 2: "files (sample_Disk ''garbled'') tokenFile = None \<or>
         (\<exists>bytes err. files (sample_Disk ''garbled'') tokenFile = Some bytes \<and>
            json_Decode_Token sample_OAuthLib bytes = Inl err)"
    by (simp add: sample_Disk_def sample_OAuthLib_def)
  have 3: "\<And>d. files d tokenFile = None \<or>
         (\<exists>bytes err. files d tokenFile = Some bytes \<and>
            json_Decode_Token sample_OAuthLib bytes = Inl err) \<Longrightarrow>
      OAuthUseCase_AuthenticateClient sample_OAuthRepository 2000 \<lparr>world = d, logged = []\<rparr> =
        (Inr (),
         \<lparr>world = d,
          logged = [] @ [''Starting OAuth2 authentication...'',
                        ''No existing token found, starting OAuth flow...'']\<rparr>)"
    using AuthenticateClient_swallows_load_failure
      [of sample_OAuthRepository 2000 "\<lparr>world = empty_Disk, logged = []\<rparr>",
       THEN conjunct2, THEN conjunct2, rule_format, of _ sample_OAuthLib "()" sample_withState "[]"]
    unfolding sample_OAuthRepository_def by simp
  show ?thesis
    using 3 [OF 1] 3 [OF 2] by simp
qed

section \<open>Completing with a code (C5)\<close>

lemma CompleteAuthentication_exchange_fails:
  assumes x: "OAuthService_ExchangeCode svc code
                (Printf ''Completing OAuth2 authentication with code...'' (inner s)) = (Inl err, s2)"
  shows "OAuthUseCase_CompleteAuthentication (recording svc) code s =
           (Some err,
            \<lparr>world = (world s2, calls s @ [ExchangeCode_call code]),
             logged = logged s2 @ [''Failed to exchange code for token: '' @ Error err]\<rparr>)"
proof -
  let ?s1 = "Printf ''Completing OAuth2 authentication with code...'' s"
  let ?s2 = "\<lparr>world = (world s2, calls s @ [ExchangeCode_call code]), logged = logged s2\<rparr>"
  have 1: "OAuthService_ExchangeCode (recording svc) code ?s1 = (Inl err, ?s2)"
    by (simp add: recording_simps spy_unfold inner_Printf calls_Printf x)
  show ?thesis
    unfolding OAuthUseCase_CompleteAuthentication_def Let_def 1
    by (simp add: Printf_def)
qed

lemma CompleteAuthentication_exchange_succeeds:
  assumes x: "OAuthService_ExchangeCode svc code
                (Printf ''Completing OAuth2 authentication with code...'' (inner s)) = (Inr tok, s2)"
    and v: "OAuthService_SaveToken svc tok s2 = (r, s3)"
  shows "fst (OAuthUseCase_CompleteAuthentication (recording svc) code s) = r \<and>
         calls (snd (OAuthUseCase_CompleteAuthentication (recording svc) code s)) =
           calls s @ [ExchangeCode_call code, SaveToken_call tok] \<and>
         world (inner (snd (OAuthUseCase_CompleteAuthentication (recording svc) code s))) =
           world s3"
proof -
  let ?s1 = "Printf ''Completing OAuth2 authentication with code...'' s"
  let ?s2 = "\<lparr>world = (world s2, calls s @ [ExchangeCode_call code]), logged = logged s2\<rparr>"
  let ?s3 = "\<lparr>world = (world s3, calls s @ [ExchangeCode_call code, SaveToken_call tok]),
             logged = logged s3\<rparr>"
  have 1: "OAuthService_ExchangeCode (recording svc) code ?s1 = (Inr tok, ?s2)"
    by (simp add: recording_simps spy_unfold inner_Printf calls_Printf x)
  have 2: "OAuthService_SaveToken (recording svc) tok ?s2 = (r, ?s3)"
    by (simp add: recording_simps spy_unfold inner_mk calls_mk v)
  have "OAuthUseCase_CompleteAuthentication (recording svc) code s =
          (case r of
             None \<Rightarrow> (None, Printf ''Authentication completed successfully'' ?s3)
           | Some err \<Rightarrow> (Some err, Printf (''Failed to save token: '' @ Error err) ?s3))"
    unfolding OAuthUseCase_CompleteAuthentication_def Let_def 1
    by (simp add: 2 split: option.splits)
  then show ?thesis
    by (cases r) (simp_all add: Printf_def calls_def inner_def)
qed

lemma CompleteAuthentication_repository_exchange_fails:
  assumes "config_Exchange lib code = Inl err"
  shows "OAuthUseCase_CompleteAuthentication (OAuthRepository lib cfg ws) code
           \<lparr>world = d, logged = l\<rparr> =
           (Some err,
            \<lparr>world = d,
             logged = l @ [''Completing OAuth2 authentication with code...'',
                           ''Failed to exchange code for token: '' @ Error err]\<rparr>)"
  unfolding OAuthUseCase_CompleteAuthentication_def Let_def
  by (simp add: Printf_def OAuthRepository_simps invoke_unfold OAuthRepository_ExchangeCode_def assms)

text \<open>
  C5.  \<open>CompleteAuthentication\<close> exchanges the code first and saves last.  When the
  exchange fails, the error returned is the exchange's, the service has received the one
  call \<open>ExchangeCode\<close> and no \<open>SaveToken\<close>, and the world is the one the exchange left.
  When it succeeds, the calls are the exchange and then the saving of the token it
  produced, and the result is the result of saving.  For the repository, a failing exchange
  leaves the disk, and so the token file, exactly as it was.
\<close>

theorem CompleteAuthentication_saves_last:
  "(\<forall>err s2.
      OAuthService_ExchangeCode (svc :: ('w, 'c) OAuthService) code
        (Printf ''Completing OAuth2 authentication with code...'' (inner s)) = (Inl err, s2) \<longrightarrow>
      OAuthUseCase_CompleteAuthentication (recording svc) code s =
        (Some err,
         \<lparr>world = (world s2, calls s @ [ExchangeCode_call code]),
          logged = logged s2 @ [''Failed to exchange code for token: '' @ Error err]\<rparr>)) \<and>
   (\<forall>tok s2 r s3.
      OAuthService_ExchangeCode svc code
        (Printf ''Completing OAuth2 authentication with code...'' (inner s)) = (Inr tok, s2) \<longrightarrow>
      OAuthService_SaveToken svc tok s2 = (r, s3) \<longrightarrow>
      fst (OAuthUseCase_CompleteAuthentication (recording svc) code s) = r \<and>
      calls (snd (OAuthUseCase_CompleteAuthentication (recording svc) code s)) =
        calls s @ [ExchangeCode_call code, SaveToken_call tok] \<and>
      world (inner (snd (OAuthUseCase_CompleteAuthentication (recording svc) code s))) =
        world s3) \<and>
   (\<forall>lib (cfg :: 'c) ws d l err.
      config_Exchange lib code = Inl err \<longrightarrow>
      OAuthUseCase_CompleteAuthentication (OAuthRepository lib cfg ws) code
        \<lparr>world = d, logged = l\<rparr> =
        (Some err,
         \<lparr>world = d,
          logged = l @ [''Completing OAuth2 authentication with code...'',
                        ''Failed to exchange code for token: '' @ Error err]\<rparr>))"
proof (intro conjI allI impI)
  fix err s2
  assume "OAuthService_ExchangeCode svc code
        (Printf ''Completing OAuth2 authentication with code...'' (inner s)) = (Inl err, s2)"
  then show "OAuthUseCase_CompleteAuthentication (recording svc) code s =
        (Some err,
         \<lparr>world = (world s2, calls s @ [ExchangeCode_call code]),
          logged = logged s2 @ [''Failed to exchange code for token: '' @ Error err]\<rparr>)"
    by (rule CompleteAuthentication_exchange_fails)
next
  fix tok s2 r s3
  assume a: "OAuthService_ExchangeCode svc code
        (Printf ''Completing OAuth2 authentication with code...'' (inner s)) = (Inr tok, s2)"
     "OAuthService_SaveToken svc tok s2 = (r, s3)"
  note k = CompleteAuthentication_exchange_succeeds [OF a]
  show "fst (OAuthUseCase_CompleteAuthentication (recording svc) code s) = r"
    using k by blast
  show "calls (snd (OAuthUseCase_CompleteAuthentication (recording svc) code s)) =
        calls s @ [ExchangeCode_call code, SaveToken_call tok]"
    using k by blast
  show "world (inner (snd (OAuthUseCase_CompleteAuthentication (recording svc) code s))) =
        world s3"
    using k by blast
next
  fix lib :: OAuthLib and cfg :: 'c and ws and d :: Disk and l err
  assume "config_Exchange lib code = Inl err"
  then show "OAuthUseCase_CompleteAuthentication (OAuthRepository lib cfg ws) code
        \<lparr>world = d, logged = l\<rparr> =
        (Some err,
         \<lparr>world = d,
          logged = l @ [''Completing OAuth2 authentication with code...'',
                        ''Failed to exchange code for token: '' @ Error err]\<rparr>)"
    by (rule CompleteAuthentication_repository_exchange_fails)
qed

theorem CompleteAuthentication_saves_last_witness:
  "OAuthUseCase_CompleteAuthentication (recording sample_OAuthRepository) ''bad''
     \<lparr>world = (sample_Disk ''stored'', []), logged = []\<rparr> =
     (Some (External ''oauth2: cannot fetch token''),
      \<lparr>world = (sample_Disk ''stored'', [ExchangeCode_call ''bad'']),
       logged = [''Completing OAuth2 authentication with code...'',
                 ''Failed to exchange code for token: oauth2: cannot fetch token'']\<rparr>) \<and>
   calls (snd (OAuthUseCase_CompleteAuthentication (recording sample_OAuthRepository) ''good''
     \<lparr>world = (sample_Disk ''stored'', []), logged = []\<rparr>)) =
     [ExchangeCode_call ''good'', SaveToken_call (Some sample_Token)] \<and>
   files (world (inner (snd (OAuthUseCase_CompleteAuthentication
     (recording sample_OAuthRepository) ''good''
     \<lparr>world = (sample_Disk ''stored'', []), logged = []\<rparr>)))) tokenFile = Some ''new-token''"
proof -
  let ?s = "\<lparr>world = (sample_Disk ''stored'', []::OAuthCall list), logged = []\<rparr>"
  let ?s2 = "\<lparr>world = sample_Disk ''stored'',
             logged = [''Completing OAuth2 authentication with code...'']\<rparr>"
  let ?d3 = "(sample_Disk ''stored'')\<lparr>files := [tokenFile \<mapsto> ''new-token'']\<rparr>"
  let ?s3 = "\<lparr>world = ?d3, logged = [''Completing OAuth2 authentication with code...'']\<rparr>"
  have bad: "OAuthService_ExchangeCode sample_OAuthRepository ''bad''
        (Printf ''Completing OAuth2 authentication with code...'' (inner ?s)) =
        (Inl (External ''oauth2: cannot fetch token''), ?s2)"
    by (simp add: sample_simps inner_def Printf_def invoke_def OAuthRepository_ExchangeCode_def
        sample_OAuthLib_def)
  have good: "OAuthService_ExchangeCode sample_OAuthRepository ''good''
        (Printf ''Completing OAuth2 authentication with code...'' (inner ?s)) =
        (Inr (Some sample_Token), ?s2)"
    by (simp add: sample_simps inner_def Printf_def invoke_def OAuthRepository_ExchangeCode_def
        sample_OAuthLib_def)
  have save: "OAuthService_SaveToken sample_OAuthRepository (Some sample_Token) ?s2 = (None, ?s3)"
    by (simp add: sample_simps invoke_def OAuthRepository_SaveToken_def sample_OAuthLib_def
        sample_Disk_def)
  note t = CompleteAuthentication_saves_last [of sample_OAuthRepository _ ?s]
  have 1: "OAuthUseCase_CompleteAuthentication (recording sample_OAuthRepository) ''bad'' ?s =
     (Some (External ''oauth2: cannot fetch token''),
      \<lparr>world = (sample_Disk ''stored'', [ExchangeCode_call ''bad'']),
       logged = [''Completing OAuth2 authentication with code...'',
                 ''Failed to exchange code for token: oauth2: cannot fetch token'']\<rparr>)"
    using t [of "''bad''", THEN conjunct1, rule_format, OF bad] by (simp add: calls_def)
  note g = t [of "''good''", THEN conjunct2, THEN conjunct1, rule_format, OF good save]
  show ?thesis
    using 1 g by (simp add: calls_def)
qed

section \<open>The local-server flow (C1, C8)\<close>

lemma Handler_elsewhere:
  "Path r \<noteq> ''/oauth2callback'' \<Longrightarrow> Handler state r = (Some http_NotFound, None)"
  by (simp add: Handler_def)

lemma serve_skips:
  assumes "\<forall>(a, q) \<in> set pre. a < d \<and> Path q \<noteq> ''/oauth2callback''"
  shows "serve state d (pre @ rest) =
           (map (\<lambda>(a, q). Served q (Some http_NotFound)) pre @ fst (serve state d rest),
            snd (serve state d rest))"
  using assms
proof (induction pre)
  case Nil
  then show ?case by simp
next
  case (Cons p pre)
  obtain a q where p: "p = (a, q)" by (cases p)
  from Cons.prems p have "a < d" "Path q \<noteq> ''/oauth2callback''" by auto
  moreover from Cons have "serve state d (pre @ rest) =
           (map (\<lambda>(a, q). Served q (Some http_NotFound)) pre @ fst (serve state d rest),
            snd (serve state d rest))" by simp
  ultimately show ?case
    by (simp add: p Handler_elsewhere)
qed

lemma serve_error:
  assumes "at < d" and "Handler state r = (w, Some (errChan_send err))"
  shows "serve state d ((at, r) # post) = ([Served r w], errChan_recv err)"
  using assms by simp

lemma serve_quiet:
  assumes "\<forall>(at, r) \<in> set reqs. d \<le> at \<or> snd (Handler state r) = None"
  shows "snd (serve state d reqs) = time_After d"
  using assms
proof (induction reqs)
  case Nil
  then show ?case by simp
next
  case (Cons p reqs)
  obtain a q where p: "p = (a, q)" by (cases p)
  show ?case
  proof (cases "d \<le> a")
    case True
    then show ?thesis by (simp add: p)
  next
    case False
    with Cons.prems p have "snd (Handler state q) = None" by auto
    then obtain w where "Handler state q = (w, None)" by (cases "Handler state q") auto
    moreover from Cons have "snd (serve state d reqs) = time_After d" by simp
    ultimately show ?thesis using False
      by (auto simp add: p split: prod.splits)
  qed
qed

lemma serve_no_Shutdown:
  "filter is_Shutdown (fst (serve state d reqs)) = []"
proof (induction reqs)
  case Nil
  then show ?case by simp
next
  case (Cons p reqs)
  obtain a q where p: "p = (a, q)" by (cases p)
  show ?case
    using Cons
    by (auto simp add: p is_Shutdown_def split: prod.splits option.splits send.splits)
qed

lemma flow_events:
  "snd (OAuthUseCase_CompleteAuthenticationWithServer svc now listen reqs s) =
     ListenAndServe '':8080'' #
     fst (case listen of
            Some e \<Rightarrow> ([], errChan_recv (ServerError e))
          | None \<Rightarrow> serve (mint_state now) (10 * Minute) reqs) @
     [Shutdown (5 * Second)]"
  unfolding OAuthUseCase_CompleteAuthenticationWithServer_def Let_def
  by (simp split: prod.splits selected.splits)

lemma flow_Shutdown_once:
  "filter is_Shutdown (snd (OAuthUseCase_CompleteAuthenticationWithServer svc now listen reqs s)) =
     [Shutdown (5 * Second)]"
  unfolding flow_events
  by (cases listen) (simp_all add: serve_no_Shutdown, simp_all add: is_Shutdown_def)

lemma flow_Shutdown_last:
  "last (snd (OAuthUseCase_CompleteAuthenticationWithServer svc now listen reqs s)) =
     Shutdown (5 * Second)"
  unfolding flow_events by simp

lemma flow_timeout:
  assumes "\<forall>(at, r) \<in> set reqs. 10 * Minute \<le> at \<or> snd (Handler (mint_state now) r) = None"
  shows "fst (fst (OAuthUseCase_CompleteAuthenticationWithServer svc now None reqs s)) =
           Some OAuthFlowTimedOut"
proof -
  obtain evs where "serve (mint_state now) (10 * Minute) reqs = (evs, time_After (10 * Minute))"
    using serve_quiet [OF assms] by (cases "serve (mint_state now) (10 * Minute) reqs") auto
  then show ?thesis
    unfolding OAuthUseCase_CompleteAuthenticationWithServer_def Let_def
    by (simp split: prod.splits)
qed

lemma flow_error:
  assumes "(case listen of
              Some e \<Rightarrow> ([], errChan_recv (ServerError e))
            | None \<Rightarrow> serve (mint_state now) (10 * Minute) reqs) = (evs, errChan_recv err)"
  shows "OAuthUseCase_CompleteAuthenticationWithServer (recording svc) now listen reqs s =
     ((Some err,
       \<lparr>world = (world (snd (OAuthService_GetAuthURLWithState svc (mint_state now)
                    (Printf ''Starting OAuth2 flow with local server...'' (inner s)))),
                 calls s @ [GetAuthURLWithState_call (mint_state now)]),
        logged = logged (snd (OAuthService_GetAuthURLWithState svc (mint_state now)
                    (Printf ''Starting OAuth2 flow with local server...'' (inner s)))) @
                 [''Starting local server on http://localhost:8080'',
                  ''Visit this URL in your browser to authorize:'',
                  fst (OAuthService_GetAuthURLWithState svc (mint_state now)
                    (Printf ''Starting OAuth2 flow with local server...'' (inner s)))]\<rparr>),
      ListenAndServe '':8080'' # evs @ [Shutdown (5 * Second)])"
proof -
  obtain authURL s2 where u: "OAuthService_GetAuthURLWithState svc (mint_state now)
                    (Printf ''Starting OAuth2 flow with local server...'' (inner s)) = (authURL, s2)"
    by (cases "OAuthService_GetAuthURLWithState svc (mint_state now)
                    (Printf ''Starting OAuth2 flow with local server...'' (inner s))")
  have 1: "OAuthService_GetAuthURLWithState (recording svc) (mint_state now)
             (Printf ''Starting OAuth2 flow with local server...'' s) =
           (authURL, \<lparr>world = (world s2, calls s @ [GetAuthURLWithState_call (mint_state now)]),
                      logged = logged s2\<rparr>)"
    by (simp add: recording_simps spy_unfold inner_Printf calls_Printf u)
  show ?thesis
    unfolding OAuthUseCase_CompleteAuthenticationWithServer_def Let_def 1 u
    by (simp add: assms Printf_def)
qed

lemma mint_state_first: "mint_state 1700000000000000000 = ''random-state-1700000000''"
  by (simp add: mint_state_def Unix_first Sprintf_d_1700000000)

lemma ten_minutes: "10 * Minute = 600000000000" "5 * Second = 5000000000"
  by (simp_all add: Minute_def Second_def)

text \<open>
  C1.  On the route \<open>/oauth2callback\<close> the handler decides in this order: a non-empty
  \<open>error\<close> parameter sends the callback error; otherwise a \<open>state\<close> parameter other than
  the minted state sends the invalid-state error; otherwise an empty \<open>code\<close> sends the
  missing-code error; otherwise it writes the success page with status 200 and sends the
  code.  When the first request on the route that reaches the waiting flow (any earlier
  requests being for other paths) sends an error, the flow returns that error; the
  service has received the call for the authorization URL and no other, so no code was
  exchanged and no token saved, and the server was shut down.
\<close>

theorem callback_handler_decides:
  assumes p: "Path r = ''/oauth2callback''"
  shows
  "(Values_Get (Query r) ''error'' \<noteq> [] \<longrightarrow>
      Handler state r =
        (None, Some (errChan_send (OAuthError (Values_Get (Query r) ''error''))))) \<and>
   (Values_Get (Query r) ''error'' = [] \<and> Values_Get (Query r) ''state'' \<noteq> state \<longrightarrow>
      Handler state r = (None, Some (errChan_send InvalidStateParameter))) \<and>
   (Values_Get (Query r) ''error'' = [] \<and> Values_Get (Query r) ''state'' = state \<and>
    Values_Get (Query r) ''code'' = [] \<longrightarrow>
      Handler state r = (None, Some (errChan_send NoAuthorizationCodeReceived))) \<and>
   (Values_Get (Query r) ''error'' = [] \<and> Values_Get (Query r) ''state'' = state \<and>
    Values_Get (Query r) ''code'' \<noteq> [] \<longrightarrow>
      Handler state r =
        (Some \<lparr>status = 200, content_type = ''text/html'', page = successPage\<rparr>,
         Some (codeChan_send (Values_Get (Query r) ''code'')))) \<and>
   (\<forall>err w.
      Handler (mint_state now) r = (w, Some (errChan_send err)) \<longrightarrow>
      at < 10 * Minute \<longrightarrow>
      (\<forall>(a, q) \<in> set pre. a < 10 * Minute \<and> Path q \<noteq> ''/oauth2callback'') \<longrightarrow>
      OAuthUseCase_CompleteAuthenticationWithServer (recording svc) now None
        (pre @ (at, r) # post) s =
        ((Some err,
          \<lparr>world = (world (snd (OAuthService_GetAuthURLWithState svc (mint_state now)
                       (Printf ''Starting OAuth2 flow with local server...'' (inner s)))),
                    calls s @ [GetAuthURLWithState_call (mint_state now)]),
           logged = logged (snd (OAuthService_GetAuthURLWithState svc (mint_state now)
                       (Printf ''Starting OAuth2 flow with local server...'' (inner s)))) @
                    [''Starting local server on http://localhost:8080'',
                     ''Visit this URL in your browser to authorize:'',
                     fst (OAuthService_GetAuthURLWithState svc (mint_state now)
                       (Printf ''Starting OAuth2 flow with local server...'' (inner s)))]\<rparr>),
         ListenAndServe '':8080'' #
         (map (\<lambda>(a, q). Served q (Some http_NotFound)) pre @ [Served r w]) @
         [Shutdown (5 * Second)]))"
proof (intro conjI allI impI)
  fix err w
  assume h: "Handler (mint_state now) r = (w, Some (errChan_send err))"
    and a: "at < 10 * Minute"
    and q: "\<forall>(a, q) \<in> set pre. a < 10 * Minute \<and> Path q \<noteq> ''/oauth2callback''"
  have "serve (mint_state now) (10 * Minute) (pre @ (at, r) # post) =
          (map (\<lambda>(a, q). Served q (Some http_NotFound)) pre @ [Served r w], errChan_recv err)"
    using serve_skips [OF q, of "mint_state now" "(at, r) # post"] serve_error [OF a h, of post]
    by simp
  then have "(case None of
              Some e \<Rightarrow> ([], errChan_recv (ServerError e))
            | None \<Rightarrow> serve (mint_state now) (10 * Minute) (pre @ (at, r) # post)) =
          (map (\<lambda>(a, q). Served q (Some http_NotFound)) pre @ [Served r w], errChan_recv err)"
    by simp
  then show "OAuthUseCase_CompleteAuthenticationWithServer (recording svc) now None
        (pre @ (at, r) # post) s =
        ((Some err,
          \<lparr>world = (world (snd (OAuthService_GetAuthURLWithState svc (mint_state now)
                       (Printf ''Starting OAuth2 flow with local server...'' (inner s)))),
                    calls s @ [GetAuthURLWithState_call (mint_state now)]),
           logged = logged (snd (OAuthService_GetAuthURLWithState svc (mint_state now)
                       (Printf ''Starting OAuth2 flow with local server...'' (inner s)))) @
                    [''Starting local server on http://localhost:8080'',
                     ''Visit this URL in your browser to authorize:'',
                     fst (OAuthService_GetAuthURLWithState svc (mint_state now)
                       (Printf ''Starting OAuth2 flow with local server...'' (inner s)))]\<rparr>),
         ListenAndServe '':8080'' #
         (map (\<lambda>(a, q). Served q (Some http_NotFound)) pre @ [Served r w]) @
         [Shutdown (5 * Second)])"
    by (rule flow_error)
qed (simp_all add: Handler_def p)

theorem callback_handler_decides_witness:
  "OAuthUseCase_CompleteAuthenticationWithServer (recording sample_OAuthRepository)
     1700000000000000000 None
     [(1000, \<lparr>Path = ''/favicon.ico'', Query = []\<rparr>),
      (2000, \<lparr>Path = ''/oauth2callback'',
              Query = [(''state'', ''forged''), (''code'', ''4/abc'')]\<rparr>),
      (3000, \<lparr>Path = ''/oauth2callback'',
              Query = [(''state'', ''random-state-1700000000''), (''code'', ''4/abc'')]\<rparr>)]
     \<lparr>world = (sample_Disk ''stored'', []), logged = []\<rparr> =
   ((Some InvalidStateParameter,
     \<lparr>world = (sample_Disk ''stored'', [GetAuthURLWithState_call ''random-state-1700000000'']),
      logged = [''Starting OAuth2 flow with local server...'',
                ''Starting local server on http://localhost:8080'',
                ''Visit this URL in your browser to authorize:'',
                ''https://accounts.example/auth?state=random-state-1700000000'']\<rparr>),
    [ListenAndServe '':8080'',
     Served \<lparr>Path = ''/favicon.ico'', Query = []\<rparr> (Some http_NotFound),
     Served \<lparr>Path = ''/oauth2callback'',
             Query = [(''state'', ''forged''), (''code'', ''4/abc'')]\<rparr> None,
     Shutdown 5000000000])"
proof -
  let ?r = "\<lparr>Path = ''/oauth2callback'',
             Query = [(''state'', ''forged''), (''code'', ''4/abc'')]\<rparr>"
  let ?pre = "[(1000::int, \<lparr>Path = ''/favicon.ico'', Query = []\<rparr>)]"
  let ?post = "[(3000::int, \<lparr>Path = ''/oauth2callback'',
              Query = [(''state'', ''random-state-1700000000''), (''code'', ''4/abc'')]\<rparr>)]"
  let ?s = "\<lparr>world = (sample_Disk ''stored'', []::OAuthCall list), logged = []\<rparr>"
  have p: "Path ?r = ''/oauth2callback''" by simp
  have h: "Handler (mint_state 1700000000000000000) ?r =
             (None, Some (errChan_send InvalidStateParameter))"
    by (simp add: Handler_def Values_Get_def mint_state_first)
  have a: "(2000::int) < 10 * Minute" by (simp add: ten_minutes)
  have q: "\<forall>(a, q) \<in> set ?pre. a < 10 * Minute \<and> Path q \<noteq> ''/oauth2callback''"
    by (simp add: ten_minutes)
  have u: "OAuthService_GetAuthURLWithState sample_OAuthRepository ''random-state-1700000000''
             (Printf ''Starting OAuth2 flow with local server...'' (inner ?s)) =
           (''https://accounts.example/auth?state=random-state-1700000000'',
            \<lparr>world = sample_Disk ''stored'',
             logged = [''Starting OAuth2 flow with local server...'']\<rparr>)"
    by (simp add: sample_simps inner_def Printf_def invoke_def sample_withState_def
        sample_OAuthLib_def)
  show ?thesis
    using callback_handler_decides [OF p, of _ 1700000000000000000 2000 ?pre
        sample_OAuthRepository ?post ?s,
        THEN conjunct2, THEN conjunct2, THEN conjunct2, THEN conjunct2,
        THEN spec, THEN spec, THEN mp, THEN mp, THEN mp, OF h a q]
    by (simp add: mint_state_first u calls_def ten_minutes)
qed

text \<open>
  C8.  In every run of the flow the server is shut down exactly once, with a grace period
  of five seconds, as the last thing that happens to it before the flow returns.  When
  the server is listening and no request that arrives before ten minutes have elapsed
  makes the handler send a code or an error, the flow returns the time-out error.  The
  timer is ten minutes, that is 600 seconds.
\<close>

theorem flow_times_out_and_shuts_down_once:
  "filter is_Shutdown (snd (OAuthUseCase_CompleteAuthenticationWithServer svc now listen reqs s)) =
     [Shutdown (5 * Second)] \<and>
   last (snd (OAuthUseCase_CompleteAuthenticationWithServer svc now listen reqs s)) =
     Shutdown (5 * Second) \<and>
   ((\<forall>(at, r) \<in> set reqs. 10 * Minute \<le> at \<or> snd (Handler (mint_state now) r) = None) \<longrightarrow>
      fst (fst (OAuthUseCase_CompleteAuthenticationWithServer svc now None reqs s)) =
        Some OAuthFlowTimedOut) \<and>
   10 * Minute = 600 * Second"
proof (intro conjI impI)
  show "filter is_Shutdown
          (snd (OAuthUseCase_CompleteAuthenticationWithServer svc now listen reqs s)) =
        [Shutdown (5 * Second)]"
    by (rule flow_Shutdown_once)
  show "last (snd (OAuthUseCase_CompleteAuthenticationWithServer svc now listen reqs s)) =
        Shutdown (5 * Second)"
    by (rule flow_Shutdown_last)
  show "10 * Minute = 600 * Second"
    by (simp add: Minute_def)
next
  assume "\<forall>(at, r) \<in> set reqs. 10 * Minute \<le> at \<or> snd (Handler (mint_state now) r) = None"
  then show "fst (fst (OAuthUseCase_CompleteAuthenticationWithServer svc now None reqs s)) =
        Some OAuthFlowTimedOut"
    by (rule flow_timeout)
qed

theorem flow_times_out_and_shuts_down_once_witness:
  "OAuthUseCase_CompleteAuthenticationWithServer sample_OAuthRepository
     1700000000000000000 None
     [(1000, \<lparr>Path = ''/favicon.ico'', Query = []\<rparr>),
      (600000000001, \<lparr>Path = ''/oauth2callback'',
              Query = [(''state'', ''random-state-1700000000''), (''code'', ''4/abc'')]\<rparr>)]
     \<lparr>world = sample_Disk ''stored'', logged = []\<rparr> =
   ((Some OAuthFlowTimedOut,
     \<lparr>world = sample_Disk ''stored'',
      logged = [''Starting OAuth2 flow with local server...'',
                ''Starting local server on http://localhost:8080'',
                ''Visit this URL in your browser to authorize:'',
                ''https://accounts.example/auth?state=random-state-1700000000'']\<rparr>),
    [ListenAndServe '':8080'',
     Served \<lparr>Path = ''/favicon.ico'', Query = []\<rparr> (Some http_NotFound),
     Shutdown 5000000000])"
proof -
  let ?reqs = "[(1000::int, \<lparr>Path = ''/favicon.ico'', Query = []\<rparr>),
      (600000000001, \<lparr>Path = ''/oauth2callback'',
              Query = [(''state'', ''random-state-1700000000''), (''code'', ''4/abc'')]\<rparr>)]"
  let ?s = "\<lparr>world = sample_Disk ''stored'', logged = []\<rparr>"
  have q: "\<forall>(at, r) \<in> set ?reqs.
             10 * Minute \<le> at \<or> snd (Handler (mint_state 1700000000000000000) r) = None"
    by (simp add: ten_minutes Handler_def)
  have u: "OAuthService_GetAuthURLWithState sample_OAuthRepository ''random-state-1700000000''
             (Printf ''Starting OAuth2 flow with local server...'' ?s) =
           (''https://accounts.example/auth?state=random-state-1700000000'',
            \<lparr>world = sample_Disk ''stored'',
             logged = [''Starting OAuth2 flow with local server...'']\<rparr>)"
    by (simp add: sample_simps Printf_def invoke_def sample_withState_def sample_OAuthLib_def)
  have t: "fst (fst (OAuthUseCase_CompleteAuthenticationWithServer sample_OAuthRepository
     1700000000000000000 None ?reqs ?s)) = Some OAuthFlowTimedOut"
    using flow_times_out_and_shuts_down_once
      [of sample_OAuthRepository 1700000000000000000 None ?reqs ?s,
       THEN conjunct2, THEN conjunct2, THEN conjunct1, THEN mp, OF q] .
  have "OAuthUseCase_CompleteAuthenticationWithServer sample_OAuthRepository
     1700000000000000000 None ?reqs ?s =
     ((fst (fst (OAuthUseCase_CompleteAuthenticationWithServer sample_OAuthRepository
     1700000000000000000 None ?reqs ?s)),
     \<lparr>world = sample_Disk ''stored'',
      logged = [''Starting OAuth2 flow with local server...'',
                ''Starting local server on http://localhost:8080'',
                ''Visit this URL in your browser to authorize:'',
                ''https://accounts.example/auth?state=random-state-1700000000'']\<rparr>),
    [ListenAndServe '':8080'',
     Served \<lparr>Path = ''/favicon.ico'', Query = []\<rparr> (Some http_NotFound),
     Shutdown 5000000000])"
    unfolding OAuthUseCase_CompleteAuthenticationWithServer_def Let_def mint_state_first u
    by (simp add: ten_minutes Handler_def Printf_def)
  then show ?thesis
    using t by simp
qed

section \<open>Listing albums (C9)\<close>

lemma recording_albums_simps:
  "AlbumRepository_ListAlbums (recording_albums repo) =
     spy ListAlbums_call (AlbumRepository_ListAlbums repo)"
  "AlbumRepository_FetchNextPage (recording_albums repo) p =
     spy (FetchNextPage_call p) (AlbumRepository_FetchNextPage repo p)"
  by (simp_all add: recording_albums_def)

lemma calls_spy: "calls (snd (spy c m s)) = calls s @ [c]"
  by (simp add: spy_unfold calls_mk split: prod.splits)

lemma fst_spy: "fst (spy c m s) = fst (m (inner s))"
  by (simp add: spy_unfold split: prod.splits)

lemma calls_fold:
  assumes "\<And>a t. calls (f a t) = calls t"
  shows "calls (fold f xs t) = calls t"
  by (induction xs arbitrary: t) (simp_all add: assms)

lemma calls_printAlbums: "calls (CLIHandler_printAlbums albums s) = calls s"
  by (simp add: CLIHandler_printAlbums_def calls_fold calls_Printf)

lemma ListAlbums_recorded:
  "calls (snd (AlbumUseCase_ListAlbums (recording_albums repo) s)) = calls s @ [ListAlbums_call]"
  "fst (AlbumUseCase_ListAlbums (recording_albums repo) s) =
     fst (AlbumRepository_ListAlbums repo (Printf ''Fetching albums...'' (inner s)))"
proof -
  let ?c = "spy ListAlbums_call (AlbumRepository_ListAlbums repo) (Printf ''Fetching albums...'' s)"
  have c: "calls (snd ?c) = calls s @ [ListAlbums_call]"
    by (simp add: calls_spy calls_Printf)
  have f: "fst ?c = fst (AlbumRepository_ListAlbums repo (Printf ''Fetching albums...'' (inner s)))"
    by (simp add: fst_spy inner_Printf)
  show "calls (snd (AlbumUseCase_ListAlbums (recording_albums repo) s)) = calls s @ [ListAlbums_call]"
    unfolding AlbumUseCase_ListAlbums_def Let_def recording_albums_simps
    using c by (cases ?c) (auto simp add: calls_Printf split: sum.splits)
  show "fst (AlbumUseCase_ListAlbums (recording_albums repo) s) =
     fst (AlbumRepository_ListAlbums repo (Printf ''Fetching albums...'' (inner s)))"
    unfolding AlbumUseCase_ListAlbums_def Let_def recording_albums_simps
    using f by (cases ?c) (auto split: sum.splits)
qed

lemma FetchNextPage_recorded:
  "calls (snd (AlbumUseCase_FetchNextPage (recording_albums repo) p s)) =
     calls s @ [FetchNextPage_call p]"
proof -
  let ?c = "spy (FetchNextPage_call p) (AlbumRepository_FetchNextPage repo p)
              (Printf ''Fetching next page of albums...'' s)"
  have c: "calls (snd ?c) = calls s @ [FetchNextPage_call p]"
    by (simp add: calls_spy calls_Printf)
  show ?thesis
    unfolding AlbumUseCase_FetchNextPage_def Let_def recording_albums_simps
    using c by (cases ?c) (auto simp add: calls_Printf split: sum.splits)
qed

lemma HandleNextPage_recorded:
  "calls (CLIHandler_HandleNextPage (recording_albums repo) p s) = calls s @ [FetchNextPage_call p]"
proof -
  let ?c = "AlbumUseCase_FetchNextPage (recording_albums repo) p
              (Printf ''--- Fetching Next Page ---'' s)"
  have c: "calls (snd ?c) = calls s @ [FetchNextPage_call p]"
    by (simp add: FetchNextPage_recorded calls_Printf)
  show ?thesis
    unfolding CLIHandler_HandleNextPage_def Let_def
    using c by (cases ?c) (auto simp add: calls_Printf calls_printAlbums split: sum.splits)
qed

text \<open>
  C9.  The list command calls \<open>ListAlbums\<close> once.  When that fails, or the page it
  returns has an empty next-page token, the repository receives no further call.  When
  the token is \<open>t\<close>, not empty, the repository receives exactly one further call,
  \<open>FetchNextPage t\<close>, whatever the second page holds, its own next-page token included.
\<close>

theorem HandleListAlbums_chases_one_page:
  "calls (CLIHandler_HandleListAlbums (recording_albums repo) s) =
     calls s @ ListAlbums_call #
       (case fst (AlbumRepository_ListAlbums repo
                    (Printf ''Fetching albums...'' (Printf ''--- Listing Albums ---'' (inner s)))) of
          Inl err \<Rightarrow> []
        | Inr response \<Rightarrow>
            if NextPageToken response = [] then []
            else [FetchNextPage_call (NextPageToken response)])"
proof -
  let ?c = "AlbumUseCase_ListAlbums (recording_albums repo) (Printf ''--- Listing Albums ---'' s)"
  have c: "calls (snd ?c) = calls s @ [ListAlbums_call]"
    by (simp add: ListAlbums_recorded calls_Printf)
  have f: "fst ?c = fst (AlbumRepository_ListAlbums repo
                    (Printf ''Fetching albums...'' (Printf ''--- Listing Albums ---'' (inner s))))"
    by (simp add: ListAlbums_recorded inner_Printf)
  show ?thesis
    unfolding CLIHandler_HandleListAlbums_def CLIHandler_handleNextPage_def Let_def f [symmetric]
    using c
    by (cases ?c)
      (auto simp add: calls_Printf calls_printAlbums HandleNextPage_recorded split: sum.splits)
qed

theorem HandleListAlbums_chases_one_page_witness:
  "calls (CLIHandler_HandleListAlbums (recording_albums sample_pages)
            \<lparr>world = ((), []), logged = []\<rparr>) =
     [ListAlbums_call, FetchNextPage_call ''XYZ'']"
  using HandleListAlbums_chases_one_page [of sample_pages "\<lparr>world = ((), []), logged = []\<rparr>"]
  by (simp add: sample_pages_def calls_def)

section \<open>The status of the upstream response (C3, C4)\<close>

lemma NewRequest_GET:
  "url_Parse lib url = None \<Longrightarrow>
   (case http_NewRequest lib ''GET'' url None of
      Inl err \<Rightarrow> Inl err
    | Inr req \<Rightarrow> Inr (Header_Set ''Content-Type'' ''application/json'' req)) = Inr (GET url)"
  by (simp add: http_NewRequest_def GET_def)

lemma makeAlbumsRequest_reaches:
  assumes "url_Parse lib url = None" and "client (GET url) (world s) = (Inr resp, w)"
  shows "GooglePhotosRepository_makeAlbumsRequest lib client url s = (Inr resp, s\<lparr>world := w\<rparr>)"
  using assms
  by (simp add: GooglePhotosRepository_makeAlbumsRequest_def http_NewRequest_def GET_def invoke_def)

lemma readAndParseResponse_status:
  "(fst (GooglePhotosRepository_readAndParseResponse lib resp s) =
      Inl (UnexpectedStatusCode (StatusCode resp))) = (StatusCode resp \<noteq> 200)"
  by (simp add: GooglePhotosRepository_readAndParseResponse_def http_StatusOK_def Let_def
      split: sum.splits)

lemma readAndParseResponse_OK:
  "StatusCode resp = 200 \<Longrightarrow>
   fst (GooglePhotosRepository_readAndParseResponse lib resp s) =
     (case Body resp of
        Inl err \<Rightarrow> Inl (FailedToReadResponseBody err)
      | Inr body \<Rightarrow>
          (case json_Unmarshal_AlbumsResponse lib body of
             Inl err \<Rightarrow> Inl (FailedToDecodeJSON err)
           | Inr data \<Rightarrow> Inr data))"
  by (simp add: GooglePhotosRepository_readAndParseResponse_def http_StatusOK_def Let_def
      split: sum.splits)

lemma ListAlbums_reaches:
  assumes "url_Parse lib albumsEndpoint = None"
    and "client (GET albumsEndpoint) (world s) = (Inr resp, w)"
  shows "GooglePhotosRepository_ListAlbums lib client s =
           GooglePhotosRepository_readAndParseResponse lib resp (s\<lparr>world := w\<rparr>)"
  using assms by (simp add: GooglePhotosRepository_ListAlbums_def makeAlbumsRequest_reaches)

lemma FetchNextPage_reaches:
  assumes "url_Parse lib (albumsEndpoint @ ''?pageToken='' @ token) = None"
    and "client (GET (albumsEndpoint @ ''?pageToken='' @ token)) (world s) = (Inr resp, w)"
  shows "GooglePhotosRepository_FetchNextPage lib client token s =
           GooglePhotosRepository_readAndParseResponse lib resp (s\<lparr>world := w\<rparr>)"
  using assms
  by (simp add: GooglePhotosRepository_FetchNextPage_def Let_def makeAlbumsRequest_reaches)

lemma GetAlbumByID_reaches:
  assumes "url_Parse lib (albumsEndpoint @ ''/'' @ albumID) = None"
    and "client (GET (albumsEndpoint @ ''/'' @ albumID)) (world s) = (Inr resp, w)"
  shows "fst (GooglePhotosRepository_GetAlbumByID lib client albumID s) =
           (if StatusCode resp \<noteq> 200 then Inl (APIError (Status resp))
            else case Body resp of
                   Inl err \<Rightarrow> Inl (FailedToDecodeAlbum err)
                 | Inr body \<Rightarrow>
                     (case json_Decode_Album lib body of
                        Inl err \<Rightarrow> Inl (FailedToDecodeAlbum err)
                      | Inr album \<Rightarrow> Inr album))"
  using assms
  by (simp add: GooglePhotosRepository_GetAlbumByID_def Let_def http_NewRequest_def GET_def
      invoke_def http_StatusOK_def split: sum.splits)

lemma CreateAlbum_reaches:
  assumes "json_Marshal lib title = Inr payload"
    and "url_Parse lib albumsEndpoint = None"
    and "client (POST albumsEndpoint payload) (world s) = (Inr resp, w)"
  shows "fst (GooglePhotosRepository_CreateAlbum lib client title s) =
           (case Body resp of
              Inl err \<Rightarrow> Inl (FailedToDecodeResponse err)
            | Inr body \<Rightarrow>
                (case json_Decode_Album lib body of
                   Inl err \<Rightarrow> Inl (FailedToDecodeResponse err)
                 | Inr album \<Rightarrow> Inr album))"
  using assms
  by (simp add: GooglePhotosRepository_CreateAlbum_def http_NewRequest_def POST_def
      invoke_def split: sum.splits)

text \<open>
  C3.  The claim: \<open>CreateAlbum\<close> fails with the status error on a response whose status
  is not 2xx, as \<open>ListAlbums\<close> and \<open>GetAlbumByID\<close> do.  The code never looks at the
  status: once the request has been sent and answered, the result is whatever decoding the
  body gives, so a refusal whose body is a JSON object comes back as an album with no id
  and no title, and no error.
\<close>

theorem CreateAlbum_never_checks_status:
  assumes "json_Marshal lib title = Inr payload"
    and "url_Parse lib albumsEndpoint = None"
    and "client (POST albumsEndpoint payload) (world s) = (Inr resp, w)"
  shows "fst (GooglePhotosRepository_CreateAlbum lib client title s) =
           (case Body resp of
              Inl err \<Rightarrow> Inl (FailedToDecodeResponse err)
            | Inr body \<Rightarrow>
                (case json_Decode_Album lib body of
                   Inl err \<Rightarrow> Inl (FailedToDecodeResponse err)
                 | Inr album \<Rightarrow> Inr album))"
  using assms by (rule CreateAlbum_reaches)

theorem CreateAlbum_never_checks_status_witness:
  "fst (GooglePhotosRepository_CreateAlbum sample_AlbumLib
          (answering \<lparr>StatusCode = 403, Status = ''403 Forbidden'', Body = Inr ''{}''\<rparr>)
          ''Holidays'' \<lparr>world = (), logged = []\<rparr>) =
     Inr \<lparr>ID = [], Title = []\<rparr> \<and>
   fst (GooglePhotosRepository_GetAlbumByID sample_AlbumLib
          (answering \<lparr>StatusCode = 403, Status = ''403 Forbidden'', Body = Inr ''{}''\<rparr>)
          ''Holidays'' \<lparr>world = (), logged = []\<rparr>) =
     Inl (APIError ''403 Forbidden'')"
proof -
  let ?resp = "\<lparr>StatusCode = 403, Status = ''403 Forbidden'', Body = Inr ''{}''\<rparr>"
  let ?s = "\<lparr>world = (), logged = []\<rparr>"
  have m: "json_Marshal sample_AlbumLib ''Holidays'' = Inr ''{album:{title:Holidays}}''"
    by (simp add: sample_AlbumLib_def)
  have u: "url_Parse sample_AlbumLib albumsEndpoint = None"
    by (simp add: sample_AlbumLib_def)
  have c: "answering ?resp (POST albumsEndpoint ''{album:{title:Holidays}}'') (world ?s) =
             (Inr ?resp, ())"
    by (simp add: answering_def)
  have g: "fst (GooglePhotosRepository_GetAlbumByID sample_AlbumLib (answering ?resp)
          ''Holidays'' ?s) = Inl (APIError ''403 Forbidden'')"
    by (simp add: GetAlbumByID_reaches [where resp = "?resp" and w = "()"]
        answering_def sample_AlbumLib_def)
  show ?thesis
    using CreateAlbum_never_checks_status
      [of sample_AlbumLib "''Holidays''" "''{album:{title:Holidays}}''" "answering ?resp" ?s
        ?resp "()", OF m u c] g
    by (simp add: sample_AlbumLib_def)
qed

text \<open>
  C4, as claimed: every 2xx response goes on to decoding.  It fails for a response with
  status 203, which is 2xx: \<open>ListAlbums\<close> returns the status error, although the body
  decodes.
\<close>

theorem ListAlbums_rejects_203:
  "(200::int) \<le> 203 \<and> (203::int) < 300 \<and>
   json_Unmarshal_AlbumsResponse sample_AlbumLib ''{}'' = Inr \<lparr>Albums = [], NextPageToken = []\<rparr> \<and>
   fst (GooglePhotosRepository_ListAlbums sample_AlbumLib
          (answering \<lparr>StatusCode = 203, Status = ''203 Non-Authoritative Information'',
                      Body = Inr ''{}''\<rparr>)
          \<lparr>world = (), logged = []\<rparr>) =
     Inl (UnexpectedStatusCode 203)"
  by (simp add: ListAlbums_reaches [where w = "()" and resp = "\<lparr>StatusCode = 203,
        Status = ''203 Non-Authoritative Information'', Body = Inr ''{}''\<rparr>"]
      answering_def sample_AlbumLib_def GooglePhotosRepository_readAndParseResponse_def
      http_StatusOK_def)

text \<open>
  C4, amended.  When a list, get or next-page request has been sent and answered, the
  call fails with the status error, carrying the response's status, exactly when the
  status is not 200; a response with status 200, and no other, goes on to the decoding
  of its body.
\<close>

theorem status_error_iff_not_200:
  "(url_Parse lib albumsEndpoint = None \<longrightarrow>
    client (GET albumsEndpoint) (world s) = (Inr resp, w) \<longrightarrow>
      (fst (GooglePhotosRepository_ListAlbums lib client s) =
         Inl (UnexpectedStatusCode (StatusCode resp))) = (StatusCode resp \<noteq> 200) \<and>
      (StatusCode resp = 200 \<longrightarrow>
         fst (GooglePhotosRepository_ListAlbums lib client s) =
           (case Body resp of
              Inl err \<Rightarrow> Inl (FailedToReadResponseBody err)
            | Inr body \<Rightarrow>
                (case json_Unmarshal_AlbumsResponse lib body of
                   Inl err \<Rightarrow> Inl (FailedToDecodeJSON err)
                 | Inr data \<Rightarrow> Inr data)))) \<and>
   (url_Parse lib (albumsEndpoint @ ''?pageToken='' @ token) = None \<longrightarrow>
    client (GET (albumsEndpoint @ ''?pageToken='' @ token)) (world s) = (Inr resp, w) \<longrightarrow>
      (fst (GooglePhotosRepository_FetchNextPage lib client token s) =
         Inl (UnexpectedStatusCode (StatusCode resp))) = (StatusCode resp \<noteq> 200) \<and>
      (StatusCode resp = 200 \<longrightarrow>
         fst (GooglePhotosRepository_FetchNextPage lib client token s) =
           (case Body resp of
              Inl err \<Rightarrow> Inl (FailedToReadResponseBody err)
            | Inr body \<Rightarrow>
                (case json_Unmarshal_AlbumsResponse lib body of
                   Inl err \<Rightarrow> Inl (FailedToDecodeJSON err)
                 | Inr data \<Rightarrow> Inr data)))) \<and>
   (url_Parse lib (albumsEndpoint @ ''/'' @ albumID) = None \<longrightarrow>
    client (GET (albumsEndpoint @ ''/'' @ albumID)) (world s) = (Inr resp, w) \<longrightarrow>
      (fst (GooglePhotosRepository_GetAlbumByID lib client albumID s) =
         Inl (APIError (Status resp))) = (StatusCode resp \<noteq> 200) \<and>
      (StatusCode resp = 200 \<longrightarrow>
         fst (GooglePhotosRepository_GetAlbumByID lib client albumID s) =
           (case Body resp of
              Inl err \<Rightarrow> Inl (FailedToDecodeAlbum err)
            | Inr body \<Rightarrow>
                (case json_Decode_Album lib body of
                   Inl err \<Rightarrow> Inl (FailedToDecodeAlbum err)
                 | Inr album \<Rightarrow> Inr album))))"
proof (intro conjI impI)
  assume a: "url_Parse lib albumsEndpoint = None"
    "client (GET albumsEndpoint) (world s) = (Inr resp, w)"
  show "(fst (GooglePhotosRepository_ListAlbums lib client s) =
         Inl (UnexpectedStatusCode (StatusCode resp))) = (StatusCode resp \<noteq> 200)"
    using a by (simp add: ListAlbums_reaches readAndParseResponse_status)
  assume "StatusCode resp = 200"
  then show "fst (GooglePhotosRepository_ListAlbums lib client s) =
           (case Body resp of
              Inl err \<Rightarrow> Inl (FailedToReadResponseBody err)
            | Inr body \<Rightarrow>
                (case json_Unmarshal_AlbumsResponse lib body of
                   Inl err \<Rightarrow> Inl (FailedToDecodeJSON err)
                 | Inr data \<Rightarrow> Inr data))"
    using a by (simp add: ListAlbums_reaches readAndParseResponse_OK)
next
  assume a: "url_Parse lib (albumsEndpoint @ ''?pageToken='' @ token) = None"
    "client (GET (albumsEndpoint @ ''?pageToken='' @ token)) (world s) = (Inr resp, w)"
  show "(fst (GooglePhotosRepository_FetchNextPage lib client token s) =
         Inl (UnexpectedStatusCode (StatusCode resp))) = (StatusCode resp \<noteq> 200)"
    using a by (simp add: FetchNextPage_reaches readAndParseResponse_status)
  assume "StatusCode resp = 200"
  then show "fst (GooglePhotosRepository_FetchNextPage lib client token s) =
           (case Body resp of
              Inl err \<Rightarrow> Inl (FailedToReadResponseBody err)
            | Inr body \<Rightarrow>
                (case json_Unmarshal_AlbumsResponse lib body of
                   Inl err \<Rightarrow> Inl (FailedToDecodeJSON err)
                 | Inr data \<Rightarrow> Inr data))"
    using a by (simp add: FetchNextPage_reaches readAndParseResponse_OK)
next
  assume a: "url_Parse lib (albumsEndpoint @ ''/'' @ albumID) = None"
    "client (GET (albumsEndpoint @ ''/'' @ albumID)) (world s) = (Inr resp, w)"
  note k = GetAlbumByID_reaches [of lib albumID client s resp w, OF a]
  show "(fst (GooglePhotosRepository_GetAlbumByID lib client albumID s) =
         Inl (APIError (Status resp))) = (StatusCode resp \<noteq> 200)"
    unfolding k by (simp split: sum.splits)
  assume "StatusCode resp = 200"
  then show "fst (GooglePhotosRepository_GetAlbumByID lib client albumID s) =
           (case Body resp of
              Inl err \<Rightarrow> Inl (FailedToDecodeAlbum err)
            | Inr body \<Rightarrow>
                (case json_Decode_Album lib body of
                   Inl err \<Rightarrow> Inl (FailedToDecodeAlbum err)
                 | Inr album \<Rightarrow> Inr album))"
    unfolding k by simp
qed

theorem status_error_iff_not_200_witness:
  "fst (GooglePhotosRepository_ListAlbums sample_AlbumLib
          (answering \<lparr>StatusCode = 200, Status = ''200 OK'', Body = Inr ''{}''\<rparr>)
          \<lparr>world = (), logged = []\<rparr>) = Inr \<lparr>Albums = [], NextPageToken = []\<rparr> \<and>
   fst (GooglePhotosRepository_GetAlbumByID sample_AlbumLib
          (answering \<lparr>StatusCode = 200, Status = ''200 OK'', Body = Inr ''{}''\<rparr>)
          ''42'' \<lparr>world = (), logged = []\<rparr>) = Inr \<lparr>ID = [], Title = []\<rparr> \<and>
   fst (GooglePhotosRepository_FetchNextPage sample_AlbumLib
          (answering \<lparr>StatusCode = 200, Status = ''200 OK'', Body = Inr ''{}''\<rparr>)
          ''XYZ'' \<lparr>world = (), logged = []\<rparr>) = Inr \<lparr>Albums = [], NextPageToken = []\<rparr>"
proof -
  let ?resp = "\<lparr>StatusCode = 200, Status = ''200 OK'', Body = Inr ''{}''\<rparr>"
  let ?s = "\<lparr>world = (), logged = []\<rparr>"
  have u: "url_Parse sample_AlbumLib url = None" for url
    by (simp add: sample_AlbumLib_def)
  have c: "answering ?resp req (world ?s) = (Inr ?resp, ())" for req
    by (simp add: answering_def)
  have ok: "StatusCode ?resp = 200" by simp
  note t = status_error_iff_not_200 [of sample_AlbumLib "answering ?resp" ?s ?resp "()" "''XYZ''" "''42''"]
  have 1: "fst (GooglePhotosRepository_ListAlbums sample_AlbumLib (answering ?resp) ?s) =
             Inr \<lparr>Albums = [], NextPageToken = []\<rparr>"
    using t [THEN conjunct1, THEN mp, THEN mp, THEN conjunct2, THEN mp, OF u c ok]
    by (simp add: sample_AlbumLib_def)
  have 2: "fst (GooglePhotosRepository_FetchNextPage sample_AlbumLib (answering ?resp) ''XYZ'' ?s) =
             Inr \<lparr>Albums = [], NextPageToken = []\<rparr>"
    using t [THEN conjunct2, THEN conjunct1, THEN mp, THEN mp, THEN conjunct2, THEN mp, OF u c ok]
    by (simp add: sample_AlbumLib_def)
  have 3: "fst (GooglePhotosRepository_GetAlbumByID sample_AlbumLib (answering ?resp) ''42'' ?s) =
             Inr \<lparr>ID = [], Title = []\<rparr>"
    using t [THEN conjunct2, THEN conjunct2, THEN mp, THEN mp, THEN conjunct2, THEN mp, OF u c ok]
    by (simp add: sample_AlbumLib_def)
  show ?thesis
    using 1 2 3 by simp
qed

section \<open>Saving the token (C6)\<close>

text \<open>
  C6, as claimed: a save either leaves the complete new record in the file or fails with
  nothing partial to be seen.  It fails when the write stops after three bytes: the call
  returns the write's error, and the file holds neither what it held before nor the new
  record, but the first three bytes of it.
\<close>

theorem SaveToken_leaves_partial_file:
  "files (sample_Disk ''stored'') tokenFile = Some ''stored'' \<and>
   json_Encode_Token sample_OAuthLib (Some sample_Token) = Inr ''new-token'' \<and>
   fst (OAuthRepository_SaveToken sample_OAuthLib (Some sample_Token)
          ((sample_Disk ''stored'')
             \<lparr>Write_fails := Some (3, External ''no space left on device'')\<rparr>)) =
     Some (External ''no space left on device'') \<and>
   files (snd (OAuthRepository_SaveToken sample_OAuthLib (Some sample_Token)
          ((sample_Disk ''stored'')
             \<lparr>Write_fails := Some (3, External ''no space left on device'')\<rparr>))) tokenFile =
     Some ''new''"
  by (simp add: OAuthRepository_SaveToken_def sample_OAuthLib_def sample_Disk_def Let_def)

text \<open>
  C6, amended.  \<open>SaveToken\<close> truncates the token file and then writes.  When the file
  cannot be created, the call fails with the creation error and the disk is unchanged.
  When the call returns no error, the file holds the complete encoding of the token.
  When the encoding or the write fails after the file was created, the call returns that
  error and the file holds the bytes written until then, a prefix of the encoding (none,
  for an encoding error); what the file held before is gone.  No other file changes.
\<close>

theorem SaveToken_truncates_then_writes:
  "(\<forall>err. Create_fails d = Some err \<longrightarrow>
      OAuthRepository_SaveToken lib tok d = (Some (FailedToCreateTokenFile err), d)) \<and>
   (fst (OAuthRepository_SaveToken lib tok d) = None \<longrightarrow>
      (\<exists>bytes. json_Encode_Token lib tok = Inr bytes \<and>
         files (snd (OAuthRepository_SaveToken lib tok d)) tokenFile = Some bytes)) \<and>
   (\<forall>bytes. Create_fails d = None \<longrightarrow> json_Encode_Token lib tok = Inr bytes \<longrightarrow>
      Write_fails d = None \<longrightarrow>
      fst (OAuthRepository_SaveToken lib tok d) = None \<and>
      files (snd (OAuthRepository_SaveToken lib tok d)) tokenFile = Some bytes) \<and>
   (\<forall>bytes n err. Create_fails d = None \<longrightarrow> json_Encode_Token lib tok = Inr bytes \<longrightarrow>
      Write_fails d = Some (n, err) \<longrightarrow>
      fst (OAuthRepository_SaveToken lib tok d) = Some err \<and>
      files (snd (OAuthRepository_SaveToken lib tok d)) tokenFile = Some (take n bytes)) \<and>
   (\<forall>err. Create_fails d = None \<longrightarrow> json_Encode_Token lib tok = Inl err \<longrightarrow>
      fst (OAuthRepository_SaveToken lib tok d) = Some err \<and>
      files (snd (OAuthRepository_SaveToken lib tok d)) tokenFile = Some []) \<and>
   (\<forall>name. name \<noteq> tokenFile \<longrightarrow>
      files (snd (OAuthRepository_SaveToken lib tok d)) name = files d name)"
  by (auto simp add: OAuthRepository_SaveToken_def Let_def
      split: option.splits sum.splits prod.splits)

theorem SaveToken_truncates_then_writes_witness:
  "OAuthRepository_SaveToken sample_OAuthLib (Some sample_Token)
     ((sample_Disk ''stored'')\<lparr>Create_fails := Some (External ''permission denied'')\<rparr>) =
     (Some (FailedToCreateTokenFile (External ''permission denied'')),
      (sample_Disk ''stored'')\<lparr>Create_fails := Some (External ''permission denied'')\<rparr>) \<and>
   fst (OAuthRepository_SaveToken sample_OAuthLib (Some sample_Token) (sample_Disk ''stored'')) =
     None \<and>
   files (snd (OAuthRepository_SaveToken sample_OAuthLib (Some sample_Token)
     (sample_Disk ''stored''))) tokenFile = Some ''new-token''"
proof -
  let ?d = "(sample_Disk ''stored'')\<lparr>Create_fails := Some (External ''permission denied'')\<rparr>"
  have c: "Create_fails ?d = Some (External ''permission denied'')" by simp
  have n: "Create_fails (sample_Disk ''stored'') = None"
    "json_Encode_Token sample_OAuthLib (Some sample_Token) = Inr ''new-token''"
    "Write_fails (sample_Disk ''stored'') = None"
    by (simp_all add: sample_Disk_def sample_OAuthLib_def)
  note 1 = SaveToken_truncates_then_writes
    [of ?d sample_OAuthLib "Some sample_Token", THEN conjunct1, THEN spec, THEN mp, OF c]
  note 2 = SaveToken_truncates_then_writes
    [of "sample_Disk ''stored''" sample_OAuthLib "Some sample_Token",
     THEN conjunct2, THEN conjunct2, THEN conjunct1, THEN spec, THEN mp, THEN mp, THEN mp, OF n]
  show ?thesis
    using 1 2 by simp
qed

end
